theory Spec2Isabelle
  imports Main "HOL-Library.Sublist"
begin

section \<open>The schema intermediate representation (engine/types.ts)\<close>

text \<open>
  The TypeScript interfaces become records and the string-literal unions become datatypes.
  An optional property (\<^verbatim>\<open>schema?: string\<close>) is an \<open>option\<close>; \<open>None\<close> is JavaScript's
  \<^verbatim>\<open>undefined\<close>. Several interfaces share property names (\<^verbatim>\<open>id\<close>, \<^verbatim>\<open>name\<close>,
  \<^verbatim>\<open>comment\<close>, ...); a record field is a global constant, so those fields carry a prefix
  that names their interface. JavaScript strings are modelled as \<open>string\<close>, and numbers (the
  lengths, precisions and numeric defaults of a schema) as \<open>JSNumber\<close>.
\<close>

datatype SQLDialect = MySQL | PostgreSQL

datatype ColumnType =
    CT_integer | CT_bigint | CT_smallint | CT_serial | CT_bigserial
  | CT_varchar | CT_text | CT_char | CT_boolean | CT_date
  | CT_timestamp | CT_timestamptz | CT_time | CT_decimal | CT_numeric
  | CT_float | CT_double | CT_json | CT_jsonb | CT_uuid | CT_blob | CT_enum

datatype Cardinality = OneToOne | OneToMany | ManyToMany

datatype OnDeleteAction = CASCADE | SET_NULL | SET_DEFAULT | RESTRICT | NO_ACTION

text \<open>A value of type \<^verbatim>\<open>number\<close>: \<^verbatim>\<open>NaN\<close>, an infinity (negative or not), or a finite
  double. A finite double is given by its sign (negative or not) and by the shortest decimal
  \<open>m \<times> 10\<^sup>e\<close> that identifies its magnitude among the doubles, which is the decimal whose digits
  \<^verbatim>\<open>Number::toString\<close> prints (ECMA-262, 6.1.6.1.20, step 5); \<open>m = 0\<close> is either zero, and
  trailing zeros of \<open>m\<close> are immaterial. So \<^verbatim>\<open>255\<close> is \<open>Decimal False 255 0\<close>, \<^verbatim>\<open>-7\<close> is
  \<open>Decimal True 7 0\<close>, \<^verbatim>\<open>19.99\<close> is \<open>Decimal False 1999 (- 2)\<close>, \<^verbatim>\<open>1e21\<close> is
  \<open>Decimal False 1 21\<close>, and \<open>2\<^sup>6\<^sup>3\<close>, which sixteen digits identify, is
  \<open>Decimal False 9223372036854776 3\<close>.\<close>

datatype JSNumber = NaN | Infinity bool | Decimal bool nat int

text \<open>\<^verbatim>\<open>defaultValue?: string | number | boolean | null\<close>\<close>

datatype DefaultValue = DVString string | DVNumber JSNumber | DVBoolean bool | DVNull

record ColumnDefinition =
  col_id :: string
  col_name :: string
  col_type :: ColumnType
  col_length :: "JSNumber option"
  col_precision :: "JSNumber option"
  col_scale :: "JSNumber option"
  isPrimaryKey :: bool
  isNullable :: bool
  isUnique :: bool
  defaultValue :: "DefaultValue option"
  enumValues :: "string list option"
  col_comment :: "string option"

datatype IndexType = Btree | Hash | Gin | Gist

record IndexDefinition =
  idx_id :: string
  idx_name :: string
  idx_columns :: "string list"
  idx_isUnique :: bool
  idx_type :: "IndexType option"

record ForeignKeyDefinition =
  fk_id :: string
  constraintName :: string
  columnName :: string
  referencedTable :: string
  referencedColumn :: string
  fk_onDelete :: OnDeleteAction
  fk_onUpdate :: "OnDeleteAction option"

record TableDefinition =
  tbl_id :: string
  tbl_name :: string
  tbl_schema :: "string option"
  columns :: "ColumnDefinition list"
  indexes :: "IndexDefinition list"
  foreignKeys :: "ForeignKeyDefinition list"
  tbl_comment :: "string option"

record JunctionTable =
  jt_name :: string
  jt_sourceColumn :: string
  jt_targetColumn :: string

record RelationshipDefinition =
  rel_id :: string
  rel_name :: string
  sourceTable :: string
  sourceColumn :: string
  targetTable :: string
  targetColumn :: string
  cardinality :: Cardinality
  rel_onDelete :: OnDeleteAction
  junctionTable :: "JunctionTable option"

datatype Direction = IN | OUT | INOUT

record ProcedureParameter =
  par_name :: string
  par_type :: ColumnType
  direction :: Direction
  par_defaultValue :: "string option"

datatype ReturnType = RT_column ColumnType | RT_void | RT_table

datatype Language = L_sql | L_plpgsql | L_plsql

record StoredProcedureDefinition =
  proc_id :: string
  proc_name :: string
  parameters :: "ProcedureParameter list"
  returnType :: "ReturnType option"
  body :: string
  language :: "Language option"
  proc_comment :: "string option"

record SchemaDefinition =
  sch_id :: string
  sch_name :: string
  description :: string
  dialect :: SQLDialect
  tables :: "TableDefinition list"
  relationships :: "RelationshipDefinition list"
  storedProcedures :: "StoredProcedureDefinition list"
  createdAt :: string
  updatedAt :: string

text \<open>\<^verbatim>\<open>createEmptySchema\<close>; the id that \<^verbatim>\<open>generateId()\<close> returns and the two clock readings
  are parameters.\<close>

definition createEmptySchema :: "string \<Rightarrow> string \<Rightarrow> string \<Rightarrow> SQLDialect \<Rightarrow> SchemaDefinition" where
  "createEmptySchema new_id created updated d =
     \<lparr>sch_id = new_id, sch_name = ''New Schema'', description = [], dialect = d,
      tables = [], relationships = [], storedProcedures = [],
      createdAt = created, updatedAt = updated\<rparr>"


section \<open>JavaScript string primitives\<close>

abbreviation nl :: char where "nl \<equiv> CHR 0x0A"
abbreviation dquote :: string where "dquote \<equiv> [CHR 0x22]"
abbreviation squote :: string where "squote \<equiv> [CHR 0x27]"
abbreviation backtick :: string where "backtick \<equiv> [CHR 0x60]"

text \<open>\<^verbatim>\<open>Array.prototype.join\<close>\<close>

fun join :: "string \<Rightarrow> string list \<Rightarrow> string" where
  "join sep [] = []"
| "join sep [x] = x"
| "join sep (x # y # ys) = x @ sep @ join sep (y # ys)"

text \<open>A string in a boolean position is true when it is not empty; so is an optional
  string when it is present and not empty.\<close>

fun truthy :: "string option \<Rightarrow> bool" where
  "truthy None = False"
| "truthy (Some s) = (s \<noteq> [])"

text \<open>\<^verbatim>\<open>a || b\<close> on an optional string and a string.\<close>

fun or_else :: "string option \<Rightarrow> string \<Rightarrow> string" where
  "or_else None d = d"
| "or_else (Some s) d = (if s = [] then d else s)"

text \<open>\<^verbatim>\<open>n || d\<close> on an optional number: \<^verbatim>\<open>undefined\<close>, \<^verbatim>\<open>NaN\<close> and the two zeros are
  false.\<close>

fun falsy_number :: "JSNumber \<Rightarrow> bool" where
  "falsy_number NaN = True"
| "falsy_number (Infinity neg) = False"
| "falsy_number (Decimal neg m e) = (m = 0)"

fun num_or :: "JSNumber option \<Rightarrow> JSNumber \<Rightarrow> JSNumber" where
  "num_or None d = d"
| "num_or (Some n) d = (if falsy_number n then d else n)"

text \<open>A character of a string is a UTF-16 code unit below \<open>U+0100\<close>: the ASCII characters and
  the Latin-1 supplement.\<close>

text \<open>\<^verbatim>\<open>String.prototype.toUpperCase\<close>, on the ASCII letters. The compiler only searches the
  result for three ASCII markers (\<^verbatim>\<open>formatDefaultValue\<close>). The upper-case forms of the code
  units from \<open>U+0080\<close> to \<open>U+00FF\<close> hold no ASCII character, except \<^verbatim>\<open>SS\<close> for \<open>U+00DF\<close>, and no
  marker contains \<^verbatim>\<open>SS\<close> or begins or ends with \<^verbatim>\<open>S\<close>: the three searches find what they
  find in the source.\<close>

definition upper_char :: "char \<Rightarrow> char" where
  "upper_char c =
     (let n = (of_char c :: nat) in if 97 \<le> n \<and> n \<le> 122 then char_of (n - 32) else c)"

definition toUpperCase :: "string \<Rightarrow> string" where
  "toUpperCase s = map upper_char s"

text \<open>\<^verbatim>\<open>String.prototype.toLowerCase\<close>. The code units below \<open>U+0100\<close> with a lower-case form
  are \<^verbatim>\<open>A\<close> to \<^verbatim>\<open>Z\<close> (\<open>U+0041\<close> to \<open>U+005A\<close>) and the capital letters of the Latin-1 supplement,
  \<open>U+00C0\<close> to \<open>U+00DE\<close> without the multiplication sign \<open>U+00D7\<close>; the lower-case form is the
  code unit 32 above. Every other code unit below \<open>U+0100\<close> is kept, \<open>U+00DF\<close> and \<open>U+00B5\<close>
  among them.\<close>

definition lower_char :: "char \<Rightarrow> char" where
  "lower_char c =
     (let n = (of_char c :: nat) in
      if (65 \<le> n \<and> n \<le> 90) \<or> (192 \<le> n \<and> n \<le> 222 \<and> n \<noteq> 215) then char_of (n + 32) else c)"

definition toLowerCase :: "string \<Rightarrow> string" where
  "toLowerCase s = map lower_char s"

text \<open>\<^verbatim>\<open>String.prototype.includes\<close>: the argument occurs as a contiguous substring.\<close>

definition str_includes :: "string \<Rightarrow> string \<Rightarrow> bool" where
  "str_includes s sub = sublist sub s"

text \<open>\<^verbatim>\<open>String.prototype.trim\<close> removes white space and line terminators; below \<open>U+0100\<close>
  these are tab, line feed, vertical tab, form feed, carriage return, space and the no-break
  space \<open>U+00A0\<close>.\<close>

definition is_space :: "char \<Rightarrow> bool" where
  "is_space c =
     (c = CHR 0x09 \<or> c = CHR 0x0A \<or> c = CHR 0x0B \<or> c = CHR 0x0C \<or> c = CHR 0x0D \<or> c = CHR 0x20
      \<or> c = CHR 0xA0)"

definition trim :: "string \<Rightarrow> string" where
  "trim s = rev (dropWhile is_space (rev (dropWhile is_space s)))"

text \<open>The decimal digits of a natural number, without leading zeros.\<close>

definition digit :: "nat \<Rightarrow> char" where
  "digit n = ''0123456789'' ! n"

fun show_nat :: "nat \<Rightarrow> string" where
  "show_nat n = (if n < 10 then [digit n] else show_nat (n div 10) @ [digit (n mod 10)])"

declare show_nat.simps [simp del]

text \<open>\<^verbatim>\<open>Number.prototype.toString\<close> with radix 10, which is also the conversion of a number
  in a template literal (ECMA-262, 6.1.6.1.20). For a finite number other than zero, let \<open>s\<close> be
  the digits of the number without trailing zeros, \<open>k\<close> their count, and \<open>n\<close> the position of
  the decimal point, so that the number is \<open>0.s \<times> 10\<^sup>n\<close>. For \<open>- 5 \<le> n \<le> 21\<close> the text is the
  digits followed by \<open>n - k\<close> zeros when \<open>k \<le> n\<close>, the digits with a point after the first \<open>n\<close>
  when \<open>0 < n < k\<close>, and \<^verbatim>\<open>0.\<close>, \<open>- n\<close> zeros and the digits otherwise. For any other \<open>n\<close> it is
  the first digit, a point and the other digits if there are any, \<^verbatim>\<open>e\<close>, the sign of \<open>n - 1\<close>
  and the digits of \<open>\<bar>n - 1\<bar>\<close>.\<close>

definition strip_zeros :: "string \<Rightarrow> string" where
  "strip_zeros ds = rev (dropWhile (\<lambda>c. c = CHR ''0'') (rev ds))"

definition zeros :: "int \<Rightarrow> string" where
  "zeros n = replicate (nat n) (CHR ''0'')"

definition exponent_text :: "int \<Rightarrow> string" where
  "exponent_text n = ''e'' @ (if n - 1 < 0 then ''-'' else ''+'') @ show_nat (nat \<bar>n - 1\<bar>)"

definition positive_toString :: "nat \<Rightarrow> int \<Rightarrow> string" where
  "positive_toString m e =
     (let ds = show_nat m;
          s = strip_zeros ds;
          k = int (length s);
          n = int (length ds) + e
      in if - 5 \<le> n \<and> n \<le> 21 then
           (if k \<le> n then s @ zeros (n - k)
            else if 0 < n then take (nat n) s @ ''.'' @ drop (nat n) s
            else ''0.'' @ zeros (- n) @ s)
         else if k = 1 then s @ exponent_text n
         else take 1 s @ ''.'' @ drop 1 s @ exponent_text n)"

fun number_toString :: "JSNumber \<Rightarrow> string" where
  "number_toString NaN = ''NaN''"
| "number_toString (Infinity neg) = (if neg then ''-Infinity'' else ''Infinity'')"
| "number_toString (Decimal neg m e) =
     (if m = 0 then ''0''
      else if neg then ''-'' @ positive_toString m e
      else positive_toString m e)"

section \<open>The SQL compiler (engine/sqlCompiler.ts)\<close>

text \<open>\<^verbatim>\<open>typeMapping\<close>\<close>

fun typeMapping :: "SQLDialect \<Rightarrow> ColumnType \<Rightarrow> string" where
  "typeMapping PostgreSQL CT_integer = ''INTEGER''"
| "typeMapping PostgreSQL CT_bigint = ''BIGINT''"
| "typeMapping PostgreSQL CT_smallint = ''SMALLINT''"
| "typeMapping PostgreSQL CT_serial = ''SERIAL''"
| "typeMapping PostgreSQL CT_bigserial = ''BIGSERIAL''"
| "typeMapping PostgreSQL CT_varchar = ''VARCHAR''"
| "typeMapping PostgreSQL CT_text = ''TEXT''"
| "typeMapping PostgreSQL CT_char = ''CHAR''"
| "typeMapping PostgreSQL CT_boolean = ''BOOLEAN''"
| "typeMapping PostgreSQL CT_date = ''DATE''"
| "typeMapping PostgreSQL CT_timestamp = ''TIMESTAMP''"
| "typeMapping PostgreSQL CT_timestamptz = ''TIMESTAMPTZ''"
| "typeMapping PostgreSQL CT_time = ''TIME''"
| "typeMapping PostgreSQL CT_decimal = ''DECIMAL''"
| "typeMapping PostgreSQL CT_numeric = ''NUMERIC''"
| "typeMapping PostgreSQL CT_float = ''REAL''"
| "typeMapping PostgreSQL CT_double = ''DOUBLE PRECISION''"
| "typeMapping PostgreSQL CT_json = ''JSON''"
| "typeMapping PostgreSQL CT_jsonb = ''JSONB''"
| "typeMapping PostgreSQL CT_uuid = ''UUID''"
| "typeMapping PostgreSQL CT_blob = ''BYTEA''"
| "typeMapping PostgreSQL CT_enum = ''VARCHAR''"
| "typeMapping MySQL CT_integer = ''INT''"
| "typeMapping MySQL CT_bigint = ''BIGINT''"
| "typeMapping MySQL CT_smallint = ''SMALLINT''"
| "typeMapping MySQL CT_serial = ''INT AUTO_INCREMENT''"
| "typeMapping MySQL CT_bigserial = ''BIGINT AUTO_INCREMENT''"
| "typeMapping MySQL CT_varchar = ''VARCHAR''"
| "typeMapping MySQL CT_text = ''TEXT''"
| "typeMapping MySQL CT_char = ''CHAR''"
| "typeMapping MySQL CT_boolean = ''TINYINT(1)''"
| "typeMapping MySQL CT_date = ''DATE''"
| "typeMapping MySQL CT_timestamp = ''TIMESTAMP''"
| "typeMapping MySQL CT_timestamptz = ''TIMESTAMP''"
| "typeMapping MySQL CT_time = ''TIME''"
| "typeMapping MySQL CT_decimal = ''DECIMAL''"
| "typeMapping MySQL CT_numeric = ''NUMERIC''"
| "typeMapping MySQL CT_float = ''FLOAT''"
| "typeMapping MySQL CT_double = ''DOUBLE''"
| "typeMapping MySQL CT_json = ''JSON''"
| "typeMapping MySQL CT_jsonb = ''JSON''"
| "typeMapping MySQL CT_uuid = ''CHAR(36)''"
| "typeMapping MySQL CT_blob = ''BLOB''"
| "typeMapping MySQL CT_enum = ''ENUM''"

text \<open>The text of an \<^verbatim>\<open>OnDeleteAction\<close>, as the template literals print it.\<close>

fun action_text :: "OnDeleteAction \<Rightarrow> string" where
  "action_text CASCADE = ''CASCADE''"
| "action_text SET_NULL = ''SET NULL''"
| "action_text SET_DEFAULT = ''SET DEFAULT''"
| "action_text RESTRICT = ''RESTRICT''"
| "action_text NO_ACTION = ''NO ACTION''"

definition quote :: "SQLDialect \<Rightarrow> string \<Rightarrow> string" where
  "quote d identifier =
     (if d = PostgreSQL then dquote @ identifier @ dquote
      else backtick @ identifier @ backtick)"

text \<open>\<^verbatim>\<open>str.replace(/'/g, "''")\<close>\<close>

definition escapeString :: "string \<Rightarrow> string" where
  "escapeString str = concat (map (\<lambda>c. if c = CHR 0x27 then squote @ squote else [c]) str)"

definition quote_value :: "string \<Rightarrow> string" where
  "quote_value v = squote @ v @ squote"

definition getColumnType :: "SQLDialect \<Rightarrow> ColumnDefinition \<Rightarrow> TableDefinition \<Rightarrow> string" where
  "getColumnType d column table =
     (let baseType = typeMapping d (col_type column) in
      if col_type column = CT_varchar \<or> col_type column = CT_char then
        baseType @ ''('' @ number_toString (num_or (col_length column) (Decimal False 255 0)) @ '')''
      else if col_type column = CT_decimal \<or> col_type column = CT_numeric then
        baseType @ ''('' @ number_toString (num_or (col_precision column) (Decimal False 10 0)) @ '', ''
          @ number_toString (num_or (col_scale column) (Decimal False 2 0)) @ '')''
      else if col_type column = CT_enum then
        (if d = PostgreSQL then tbl_name table @ ''_'' @ col_name column @ ''_enum''
         else ''ENUM('' @ join '', ''
                (map quote_value (case enumValues column of None \<Rightarrow> [] | Some vs \<Rightarrow> vs)) @ '')'')
      else baseType)"

text \<open>The last line of the source, \<^verbatim>\<open>String(value)\<close>, is reached by \<^verbatim>\<open>undefined\<close> only.\<close>

definition formatDefaultValue :: "SQLDialect \<Rightarrow> ColumnDefinition \<Rightarrow> string" where
  "formatDefaultValue d column =
     (case defaultValue column of
        Some DVNull \<Rightarrow> ''NULL''
      | Some (DVBoolean b) \<Rightarrow>
          (if d = MySQL then (if b then ''1'' else ''0'') else (if b then ''TRUE'' else ''FALSE''))
      | Some (DVNumber n) \<Rightarrow> number_toString n
      | Some (DVString v) \<Rightarrow>
          (if str_includes (toUpperCase v) ''CURRENT_TIMESTAMP''
              \<or> str_includes (toUpperCase v) ''NOW()''
              \<or> str_includes (toUpperCase v) ''UUID''
           then v
           else squote @ escapeString v @ squote)
      | None \<Rightarrow> ''undefined'')"

text \<open>The \<^verbatim>\<open>parts\<close> array of \<^verbatim>\<open>generateColumn\<close>, before it is joined.\<close>

definition column_parts :: "SQLDialect \<Rightarrow> ColumnDefinition \<Rightarrow> TableDefinition \<Rightarrow> string list" where
  "column_parts d column table =
     [''  '' @ quote d (col_name column), getColumnType d column table]
     @ (if \<not> isNullable column \<and> \<not> isPrimaryKey column then [''NOT NULL''] else [])
     @ (if isUnique column \<and> \<not> isPrimaryKey column then [''UNIQUE''] else [])
     @ (if defaultValue column \<noteq> None \<and> defaultValue column \<noteq> Some DVNull
        then [''DEFAULT '' @ formatDefaultValue d column] else [])"

definition generateColumn :: "SQLDialect \<Rightarrow> ColumnDefinition \<Rightarrow> TableDefinition \<Rightarrow> string" where
  "generateColumn d column table = join '' '' (column_parts d column table)"

text \<open>The qualified table name used by \<^verbatim>\<open>generateTable\<close>, \<^verbatim>\<open>generateIndexes\<close> and
  \<^verbatim>\<open>generateForeignKeys\<close>.\<close>

definition qualified_name :: "SQLDialect \<Rightarrow> TableDefinition \<Rightarrow> string" where
  "qualified_name d table =
     (if truthy (tbl_schema table)
      then quote d (the (tbl_schema table)) @ ''.'' @ quote d (tbl_name table)
      else quote d (tbl_name table))"

definition engine_suffix :: "SQLDialect \<Rightarrow> string" where
  "engine_suffix d = (if d = MySQL then '' ENGINE=InnoDB DEFAULT CHARSET=utf8mb4'' else [])"

text \<open>The \<^verbatim>\<open>columnDefs\<close> array of \<^verbatim>\<open>generateTable\<close>: the column lines and, when the table
  has a primary-key column, the \<^verbatim>\<open>PRIMARY KEY\<close> constraint.\<close>

definition columnDefs :: "SQLDialect \<Rightarrow> TableDefinition \<Rightarrow> string list" where
  "columnDefs d table =
     (let pkColumns = filter isPrimaryKey (columns table) in
      map (\<lambda>col. generateColumn d col table) (columns table)
      @ (if length pkColumns > 0
         then [''  PRIMARY KEY ('' @ join '', '' (map (\<lambda>c. quote d (col_name c)) pkColumns) @ '')'']
         else []))"

text \<open>The parts of the \<^verbatim>\<open>lines\<close> array of \<^verbatim>\<open>generateTable\<close>: the comment line that is
  pushed first, and the \<^verbatim>\<open>COMMENT ON\<close> statements that are pushed last (PostgreSQL only).\<close>

definition table_comment_line :: "TableDefinition \<Rightarrow> string list" where
  "table_comment_line table =
     (if truthy (tbl_comment table) then [''-- '' @ the (tbl_comment table)] else [])"

definition column_comments :: "SQLDialect \<Rightarrow> TableDefinition \<Rightarrow> string list" where
  "column_comments d table =
     map (\<lambda>col. ''COMMENT ON COLUMN '' @ qualified_name d table @ ''.'' @ quote d (col_name col)
                 @ '' IS '' @ squote @ escapeString (the (col_comment col)) @ squote @ '';'')
       (filter (\<lambda>col. truthy (col_comment col)) (columns table))"

definition comment_statements :: "SQLDialect \<Rightarrow> TableDefinition \<Rightarrow> string list" where
  "comment_statements d table =
     (if d = PostgreSQL then
        (if truthy (tbl_comment table)
         then [''COMMENT ON TABLE '' @ qualified_name d table @ '' IS '' @ squote
                 @ escapeString (the (tbl_comment table)) @ squote @ '';'']
         else [])
        @ column_comments d table
      else [])"

text \<open>The \<^verbatim>\<open>lines\<close> array of \<^verbatim>\<open>generateTable\<close>.\<close>

definition table_lines :: "SQLDialect \<Rightarrow> TableDefinition \<Rightarrow> string list" where
  "table_lines d table =
     table_comment_line table
     @ [''CREATE TABLE '' @ qualified_name d table @ '' ('']
     @ [join ('','' @ [nl]) (columnDefs d table)]
     @ ['')'' @ engine_suffix d @ '';'']
     @ comment_statements d table"

definition generateTable :: "SQLDialect \<Rightarrow> TableDefinition \<Rightarrow> string" where
  "generateTable d table = join [nl] (table_lines d table)"

definition generateTables :: "SchemaDefinition \<Rightarrow> string" where
  "generateTables S =
     ''-- Tables'' @ [nl] @ join [nl, nl] (map (generateTable (dialect S)) (tables S))"

text \<open>\<^verbatim>\<open>generateHeader\<close>. The source reads the clock
  (\<^verbatim>\<open>new Date().toISOString()\<close>); the string it gets is the parameter \<open>now\<close>.\<close>

definition header_rule :: string where
  "header_rule = ''-- ============================================''"

definition generateHeader :: "string \<Rightarrow> SchemaDefinition \<Rightarrow> string" where
  "generateHeader now S =
     (let dialectName = (if dialect S = PostgreSQL then ''PostgreSQL'' else ''MySQL'') in
      header_rule @ [nl]
      @ ''-- Database Schema: '' @ sch_name S @ [nl]
      @ ''-- Dialect: '' @ dialectName @ [nl]
      @ ''-- Generated: '' @ now @ [nl]
      @ ''-- Description: '' @ or_else (Some (description S)) ''Auto-generated schema'' @ [nl]
      @ header_rule)"

text \<open>A JavaScript \<^verbatim>\<open>Set\<close> iterates in insertion order; adding a member again changes
  nothing.\<close>

definition set_add :: "string list \<Rightarrow> string \<Rightarrow> string list" where
  "set_add xs x = (if x \<in> set xs then xs else xs @ [x])"

definition generateSchemaStatements :: "SchemaDefinition \<Rightarrow> string" where
  "generateSchemaStatements S =
     (let schemas =
            fold (\<lambda>t acc. if truthy (tbl_schema t) \<and> tbl_schema t \<noteq> Some ''public''
                           then set_add acc (the (tbl_schema t)) else acc)
              (tables S) []
      in if length schemas = 0 then []
         else join [nl]
                (map (\<lambda>s. ''CREATE SCHEMA IF NOT EXISTS '' @ quote (dialect S) s @ '';'') schemas))"

definition enum_statement :: "TableDefinition \<Rightarrow> ColumnDefinition \<Rightarrow> string" where
  "enum_statement table col =
     ''CREATE TYPE '' @ tbl_name table @ ''_'' @ col_name col @ ''_enum''
     @ '' AS ENUM ('' @ join '', '' (map quote_value (the (enumValues col))) @ '');''"

definition has_enum_values :: "ColumnDefinition \<Rightarrow> bool" where
  "has_enum_values col =
     (col_type col = CT_enum \<and>
      (case enumValues col of None \<Rightarrow> False | Some vs \<Rightarrow> length vs > 0))"

definition generateEnumTypes :: "SchemaDefinition \<Rightarrow> string" where
  "generateEnumTypes S =
     (let enums = concat (map (\<lambda>table. map (enum_statement table)
                                          (filter has_enum_values (columns table)))
                            (tables S))
      in if length enums > 0 then ''-- Enum Types'' @ [nl] @ join [nl] enums else [])"

fun index_type_text :: "IndexType \<Rightarrow> string" where
  "index_type_text Btree = ''BTREE''"
| "index_type_text Hash = ''HASH''"
| "index_type_text Gin = ''GIN''"
| "index_type_text Gist = ''GIST''"

definition index_statement :: "SQLDialect \<Rightarrow> TableDefinition \<Rightarrow> IndexDefinition \<Rightarrow> string" where
  "index_statement d table index =
     (let unique = (if idx_isUnique index then ''UNIQUE '' else []);
          cols = join '', '' (map (quote d) (idx_columns index));
          indexType =
            (if d = PostgreSQL \<and> idx_type index \<noteq> None \<and> idx_type index \<noteq> Some Btree
             then '' USING '' @ index_type_text (the (idx_type index)) else [])
      in ''CREATE '' @ unique @ ''INDEX '' @ quote d (idx_name index) @ '' ON ''
         @ qualified_name d table @ indexType @ '' ('' @ cols @ '');'')"

definition generateIndexes :: "SchemaDefinition \<Rightarrow> string" where
  "generateIndexes S =
     (let idxs = concat (map (\<lambda>table. map (index_statement (dialect S) table) (indexes table))
                           (tables S))
      in if length idxs > 0 then ''-- Indexes'' @ [nl] @ join [nl] idxs else [])"

definition fk_statement :: "SQLDialect \<Rightarrow> TableDefinition \<Rightarrow> ForeignKeyDefinition \<Rightarrow> string" where
  "fk_statement d table fk =
     ''ALTER TABLE '' @ qualified_name d table @ [nl]
     @ ''  ADD CONSTRAINT '' @ quote d (constraintName fk) @ [nl]
     @ ''  FOREIGN KEY ('' @ quote d (columnName fk) @ '')'' @ [nl]
     @ ''  REFERENCES '' @ quote d (referencedTable fk) @ '' ('' @ quote d (referencedColumn fk) @ '')'' @ [nl]
     @ ''  ON DELETE '' @ action_text (fk_onDelete fk)
     @ (case fk_onUpdate fk of None \<Rightarrow> [] | Some a \<Rightarrow> '' ON UPDATE '' @ action_text a)
     @ '';''"

definition generateForeignKeys :: "SchemaDefinition \<Rightarrow> string" where
  "generateForeignKeys S =
     (let fks = concat (map (\<lambda>table. map (fk_statement (dialect S) table) (foreignKeys table))
                          (tables S))
      in if length fks > 0 then ''-- Foreign Key Constraints'' @ [nl] @ join [nl, nl] fks else [])"

definition is_junction :: "RelationshipDefinition \<Rightarrow> bool" where
  "is_junction r = (cardinality r = ManyToMany \<and> junctionTable r \<noteq> None)"

definition junction_statement :: "SQLDialect \<Rightarrow> RelationshipDefinition \<Rightarrow> string" where
  "junction_statement d rel =
     (let jt = the (junctionTable rel);
          jtName = quote d (jt_name jt);
          int_type = (if d = PostgreSQL then ''INTEGER'' else ''INT'')
      in ''-- Junction table for '' @ sourceTable rel @ '' <-> '' @ targetTable rel @ [nl]
         @ ''CREATE TABLE '' @ jtName @ '' ('' @ [nl]
         @ ''  '' @ quote d (jt_sourceColumn jt) @ '' '' @ int_type @ '' NOT NULL,'' @ [nl]
         @ ''  '' @ quote d (jt_targetColumn jt) @ '' '' @ int_type @ '' NOT NULL,'' @ [nl]
         @ ''  created_at TIMESTAMP DEFAULT ''
         @ (if d = PostgreSQL then ''CURRENT_TIMESTAMP'' else ''CURRENT_TIMESTAMP'') @ '','' @ [nl]
         @ ''  PRIMARY KEY ('' @ quote d (jt_sourceColumn jt) @ '', '' @ quote d (jt_targetColumn jt) @ ''),'' @ [nl]
         @ ''  FOREIGN KEY ('' @ quote d (jt_sourceColumn jt) @ '') REFERENCES ''
         @ quote d (sourceTable rel) @ '' ('' @ quote d (sourceColumn rel) @ '') ON DELETE CASCADE,'' @ [nl]
         @ ''  FOREIGN KEY ('' @ quote d (jt_targetColumn jt) @ '') REFERENCES ''
         @ quote d (targetTable rel) @ '' ('' @ quote d (targetColumn rel) @ '') ON DELETE CASCADE'' @ [nl]
         @ '')'' @ engine_suffix d @ '';'')"

definition generateJunctionTables :: "SchemaDefinition \<Rightarrow> string" where
  "generateJunctionTables S =
     (let junctions = map (junction_statement (dialect S)) (filter is_junction (relationships S))
      in if length junctions > 0
         then ''-- Junction Tables (Many-to-Many)'' @ [nl] @ join [nl, nl] junctions else [])"

fun direction_text :: "Direction \<Rightarrow> string" where
  "direction_text IN = ''IN''"
| "direction_text OUT = ''OUT''"
| "direction_text INOUT = ''INOUT''"

fun language_text :: "Language \<Rightarrow> string" where
  "language_text L_sql = ''sql''"
| "language_text L_plpgsql = ''plpgsql''"
| "language_text L_plsql = ''plsql''"

definition generatePostgresFunction :: "StoredProcedureDefinition \<Rightarrow> string" where
  "generatePostgresFunction proc =
     (let params = join '', ''
            (map (\<lambda>p. par_name p @ '' ''
                       @ (if direction p \<noteq> IN then direction_text (direction p) @ '' '' else [])
                       @ typeMapping PostgreSQL (par_type p))
               (parameters proc));
          rt = (case returnType proc of
                  None \<Rightarrow> ''VOID''
                | Some RT_void \<Rightarrow> ''VOID''
                | Some RT_table \<Rightarrow> ''TABLE''
                | Some (RT_column ct) \<Rightarrow> typeMapping PostgreSQL ct);
          lang = (case language proc of None \<Rightarrow> ''plpgsql'' | Some l \<Rightarrow> language_text l)
      in ''-- '' @ or_else (proc_comment proc) (proc_name proc) @ [nl]
         @ ''CREATE OR REPLACE FUNCTION '' @ quote PostgreSQL (proc_name proc) @ ''('' @ params @ '')'' @ [nl]
         @ ''RETURNS '' @ rt @ [nl]
         @ ''LANGUAGE '' @ lang @ [nl]
         @ ''AS $$'' @ [nl]
         @ body proc @ [nl]
         @ ''$$;'')"

definition generateMySQLProcedure :: "StoredProcedureDefinition \<Rightarrow> string" where
  "generateMySQLProcedure proc =
     (let params = join '', ''
            (map (\<lambda>p. direction_text (direction p) @ '' '' @ par_name p @ '' ''
                       @ typeMapping MySQL (par_type p))
               (parameters proc))
      in ''-- '' @ or_else (proc_comment proc) (proc_name proc) @ [nl]
         @ ''DELIMITER //'' @ [nl]
         @ ''CREATE PROCEDURE '' @ quote MySQL (proc_name proc) @ ''('' @ params @ '')'' @ [nl]
         @ ''BEGIN'' @ [nl]
         @ body proc @ [nl]
         @ ''END //'' @ [nl]
         @ ''DELIMITER ;'')"

definition generateStoredProcedures :: "SchemaDefinition \<Rightarrow> string" where
  "generateStoredProcedures S =
     (if length (storedProcedures S) = 0 then []
      else ''-- Stored Procedures and Functions'' @ [nl]
           @ join [nl, nl]
               (map (\<lambda>proc. if dialect S = PostgreSQL then generatePostgresFunction proc
                            else generateMySQLProcedure proc)
                  (storedProcedures S)))"

text \<open>The \<^verbatim>\<open>sections\<close> array of \<^verbatim>\<open>compile\<close>, before the blank sections are filtered out.
  A section held in a variable is pushed only when it is a non-empty string.\<close>

definition push_if :: "string \<Rightarrow> string list" where
  "push_if section = (if section \<noteq> [] then [section] else [])"

definition sections :: "string \<Rightarrow> SchemaDefinition \<Rightarrow> string list" where
  "sections now S =
     [generateHeader now S]
     @ (if dialect S = PostgreSQL \<and> list_ex (\<lambda>t. truthy (tbl_schema t)) (tables S)
        then [generateSchemaStatements S] else [])
     @ (if dialect S = PostgreSQL then push_if (generateEnumTypes S) else [])
     @ [generateTables S]
     @ push_if (generateIndexes S)
     @ push_if (generateForeignKeys S)
     @ push_if (generateJunctionTables S)
     @ push_if (generateStoredProcedures S)"

definition compile :: "string \<Rightarrow> SchemaDefinition \<Rightarrow> string" where
  "compile now S = join [nl, nl] (filter (\<lambda>s. trim s \<noteq> []) (sections now S))"

text \<open>\<^verbatim>\<open>compileSQL\<close>\<close>

definition compileSQL :: "string \<Rightarrow> SchemaDefinition \<Rightarrow> string" where
  "compileSQL now S = compile now S"


section \<open>The Mermaid compiler (engine/mermaidCompiler.ts)\<close>

text \<open>\<^verbatim>\<open>cardinalityMapping\<close>: the left and the right connector.\<close>

fun cardinalityMapping :: "Cardinality \<Rightarrow> string \<times> string" where
  "cardinalityMapping OneToOne = (''||'', ''||'')"
| "cardinalityMapping OneToMany = (''||'', ''o{'')"
| "cardinalityMapping ManyToMany = (''}o'', ''o{'')"

definition is_word_char :: "char \<Rightarrow> bool" where
  "is_word_char c =
     (let n = (of_char c :: nat) in
      (97 \<le> n \<and> n \<le> 122) \<or> (65 \<le> n \<and> n \<le> 90) \<or> (48 \<le> n \<and> n \<le> 57) \<or> n = 95)"

text \<open>\<^verbatim>\<open>name.replace(/[^a-zA-Z0-9_]/g, '_')\<close>\<close>

definition sanitizeName :: "string \<Rightarrow> string" where
  "sanitizeName name = map (\<lambda>c. if is_word_char c then c else CHR ''_'') name"

text \<open>\<^verbatim>\<open>name.replace(/[^a-zA-Z0-9_ ]/g, '_')\<close>\<close>

definition sanitizeRelationName :: "string \<Rightarrow> string" where
  "sanitizeRelationName name =
     map (\<lambda>c. if is_word_char c \<or> c = CHR '' '' then c else CHR ''_'') name"

definition generateRelationName :: "string \<Rightarrow> string \<Rightarrow> string" where
  "generateRelationName source target = source @ ''_to_'' @ target"

text \<open>\<^verbatim>\<open>typeMap[column.type] || column.type\<close>: every column type has an entry.\<close>

fun mapColumnType :: "ColumnType \<Rightarrow> string" where
  "mapColumnType CT_integer = ''int''"
| "mapColumnType CT_bigint = ''bigint''"
| "mapColumnType CT_smallint = ''smallint''"
| "mapColumnType CT_serial = ''serial''"
| "mapColumnType CT_bigserial = ''bigserial''"
| "mapColumnType CT_varchar = ''varchar''"
| "mapColumnType CT_text = ''text''"
| "mapColumnType CT_char = ''char''"
| "mapColumnType CT_boolean = ''boolean''"
| "mapColumnType CT_date = ''date''"
| "mapColumnType CT_timestamp = ''timestamp''"
| "mapColumnType CT_timestamptz = ''timestamptz''"
| "mapColumnType CT_time = ''time''"
| "mapColumnType CT_decimal = ''decimal''"
| "mapColumnType CT_numeric = ''numeric''"
| "mapColumnType CT_float = ''float''"
| "mapColumnType CT_double = ''double''"
| "mapColumnType CT_json = ''json''"
| "mapColumnType CT_jsonb = ''jsonb''"
| "mapColumnType CT_uuid = ''uuid''"
| "mapColumnType CT_blob = ''blob''"
| "mapColumnType CT_enum = ''enum''"

definition generateColumnLine :: "ColumnDefinition \<Rightarrow> string" where
  "generateColumnLine column =
     (let markers = (if isPrimaryKey column then [''PK''] else [])
                    @ (if isUnique column \<and> \<not> isPrimaryKey column then [''UK''] else []);
          markerStr = (if length markers > 0 then '' '' @ dquote @ join '','' markers @ dquote else [])
      in mapColumnType (col_type column) @ '' '' @ sanitizeName (col_name column) @ markerStr)"

definition generateTableDefinition :: "TableDefinition \<Rightarrow> string list" where
  "generateTableDefinition table =
     [''    '' @ sanitizeName (tbl_name table) @ '' {'']
     @ map (\<lambda>col. ''        '' @ generateColumnLine col) (columns table)
     @ [''    }'']"

definition generateRelationship :: "RelationshipDefinition \<Rightarrow> string" where
  "generateRelationship rel =
     (let (left, right) = cardinalityMapping (cardinality rel);
          relationName = (if rel_name rel \<noteq> [] then sanitizeRelationName (rel_name rel)
                          else generateRelationName (sourceTable rel) (targetTable rel))
      in ''    '' @ sanitizeName (sourceTable rel) @ '' '' @ left @ ''--'' @ right @ '' ''
         @ sanitizeName (targetTable rel) @ '' : '' @ dquote @ relationName @ dquote)"

text \<open>The keys of the \<^verbatim>\<open>existingRels\<close> set: \<^verbatim>\<open>`${a}-${b}`\<close>.\<close>

definition rel_key :: "string \<Rightarrow> string \<Rightarrow> string" where
  "rel_key a b = a @ ''-'' @ b"

text \<open>The line that \<^verbatim>\<open>generateImplicitRelationships\<close> pushes for a foreign key of the table
  named \<open>owner\<close> that references the table named \<open>referenced\<close>.\<close>

definition implicit_line :: "string \<Rightarrow> string \<Rightarrow> string" where
  "implicit_line owner referenced =
     ''    '' @ sanitizeName referenced @ '' ||--o{ '' @ sanitizeName owner
     @ '' : '' @ dquote @ ''has_'' @ owner @ dquote"

text \<open>The body of the inner \<^verbatim>\<open>forEach\<close>: the state is the \<^verbatim>\<open>lines\<close> array and the
  \<^verbatim>\<open>existingRels\<close> set.\<close>

definition implicit_step ::
    "TableDefinition \<Rightarrow> ForeignKeyDefinition \<Rightarrow> string list \<times> string set \<Rightarrow> string list \<times> string set" where
  "implicit_step table fk st =
     (let (lines, existingRels) = st;
          relKey = rel_key (tbl_name table) (referencedTable fk);
          reverseKey = rel_key (referencedTable fk) (tbl_name table)
      in if relKey \<notin> existingRels \<and> reverseKey \<notin> existingRels
         then (lines @ [implicit_line (tbl_name table) (referencedTable fk)],
               insert relKey existingRels)
         else (lines, existingRels))"

definition explicit_keys :: "SchemaDefinition \<Rightarrow> string set" where
  "explicit_keys S = set (map (\<lambda>r. rel_key (sourceTable r) (targetTable r)) (relationships S))"

definition generateImplicitRelationships :: "SchemaDefinition \<Rightarrow> string list" where
  "generateImplicitRelationships S =
     fst (fold (\<lambda>table st. fold (implicit_step table) (foreignKeys table) st)
            (tables S) ([], explicit_keys S))"

text \<open>The \<^verbatim>\<open>lines\<close> array of \<^verbatim>\<open>MermaidCompiler.compile\<close>.\<close>

definition mermaid_lines :: "SchemaDefinition \<Rightarrow> string list" where
  "mermaid_lines S =
     [''erDiagram'']
     @ concat (map generateTableDefinition (tables S))
     @ map generateRelationship (relationships S)
     @ generateImplicitRelationships S"

definition compileMermaid :: "SchemaDefinition \<Rightarrow> string" where
  "compileMermaid S = join [nl] (mermaid_lines S)"


section \<open>The schema store (store/schemaStore.ts)\<close>

text \<open>
  The store's state. An action reads the state with \<^verbatim>\<open>get()\<close> and merges a partial state
  into it with \<^verbatim>\<open>set\<close>; in the model it maps a state to the next state. The two clock
  reads of an update (the \<^verbatim>\<open>updatedAt\<close> stamp and the header of the compiled SQL) are the
  parameters \<open>now\<close> and \<open>now'\<close>.
\<close>

record SchemaStore =
  schema :: "SchemaDefinition option"
  compiledSQL :: string
  compiledMermaid :: string
  isLoading :: bool
  isGenerating :: bool
  store_error :: "string option"
  selectedTableId :: "string option"
  selectedRelationshipId :: "string option"
  userPrompt :: string

definition updateAndRecompile ::
    "string \<Rightarrow> string \<Rightarrow> SchemaStore \<Rightarrow> (SchemaDefinition \<Rightarrow> SchemaDefinition) \<Rightarrow> SchemaStore" where
  "updateAndRecompile now now' state schemaUpdater =
     (case schema state of
        None \<Rightarrow> state
      | Some s \<Rightarrow>
          (let updatedSchema = schemaUpdater (s\<lparr>updatedAt := now\<rparr>)
           in state\<lparr>schema := Some updatedSchema,
                    compiledSQL := compileSQL now' updatedSchema,
                    compiledMermaid := compileMermaid updatedSchema\<rparr>))"

text \<open>\<^verbatim>\<open>deleteTable\<close>: \<^verbatim>\<open>find\<close> returns the first table with the id; without one (or without
  a schema) the action returns before it sets anything.\<close>

definition deleteTable :: "string \<Rightarrow> string \<Rightarrow> string \<Rightarrow> SchemaStore \<Rightarrow> SchemaStore" where
  "deleteTable now now' tableId state =
     (case (case schema state of None \<Rightarrow> None
            | Some s \<Rightarrow> find (\<lambda>t. tbl_id t = tableId) (tables s)) of
        None \<Rightarrow> state
      | Some table \<Rightarrow>
          updateAndRecompile now now' state
            (\<lambda>s. s\<lparr>tables := filter (\<lambda>t. tbl_id t \<noteq> tableId) (tables s),
                    relationships :=
                      filter (\<lambda>r. sourceTable r \<noteq> tbl_name table \<and> targetTable r \<noteq> tbl_name table)
                        (relationships s)\<rparr>))"

text \<open>\<^verbatim>\<open>addRelationship\<close>; \<open>new_id\<close> is what \<^verbatim>\<open>generateId()\<close> returns.\<close>

definition addRelationship ::
    "string \<Rightarrow> string \<Rightarrow> string \<Rightarrow> RelationshipDefinition \<Rightarrow> SchemaStore \<Rightarrow> SchemaStore" where
  "addRelationship now now' new_id relationship state =
     updateAndRecompile now now' state
       (\<lambda>s. s\<lparr>relationships := relationships s
                 @ [relationship\<lparr>rel_id := (if rel_id relationship \<noteq> [] then rel_id relationship
                                              else new_id)\<rparr>]\<rparr>)"

text \<open>\<^verbatim>\<open>Partial<RelationshipDefinition>\<close>: each property is absent (\<open>None\<close>) or given. The
  optional \<^verbatim>\<open>junctionTable\<close> can be given as \<^verbatim>\<open>undefined\<close> (\<open>Some None\<close>); the object
  spread copies that too.\<close>

record RelationshipUpdates =
  upd_id :: "string option"
  upd_name :: "string option"
  upd_sourceTable :: "string option"
  upd_sourceColumn :: "string option"
  upd_targetTable :: "string option"
  upd_targetColumn :: "string option"
  upd_cardinality :: "Cardinality option"
  upd_onDelete :: "OnDeleteAction option"
  upd_junctionTable :: "JunctionTable option option"

definition or_keep :: "'a option \<Rightarrow> 'a \<Rightarrow> 'a" where
  "or_keep u old = (case u of None \<Rightarrow> old | Some v \<Rightarrow> v)"

text \<open>\<^verbatim>\<open>{ ...r, ...updates }\<close>\<close>

definition spread_relationship :: "RelationshipDefinition \<Rightarrow> RelationshipUpdates \<Rightarrow> RelationshipDefinition" where
  "spread_relationship r u =
     \<lparr>rel_id = or_keep (upd_id u) (rel_id r),
      rel_name = or_keep (upd_name u) (rel_name r),
      sourceTable = or_keep (upd_sourceTable u) (sourceTable r),
      sourceColumn = or_keep (upd_sourceColumn u) (sourceColumn r),
      targetTable = or_keep (upd_targetTable u) (targetTable r),
      targetColumn = or_keep (upd_targetColumn u) (targetColumn r),
      cardinality = or_keep (upd_cardinality u) (cardinality r),
      rel_onDelete = or_keep (upd_onDelete u) (rel_onDelete r),
      junctionTable = or_keep (upd_junctionTable u) (junctionTable r)\<rparr>"

definition updateRelationship ::
    "string \<Rightarrow> string \<Rightarrow> string \<Rightarrow> RelationshipUpdates \<Rightarrow> SchemaStore \<Rightarrow> SchemaStore" where
  "updateRelationship now now' relationshipId updates state =
     updateAndRecompile now now' state
       (\<lambda>s. s\<lparr>relationships :=
                 map (\<lambda>r. if rel_id r = relationshipId then spread_relationship r updates else r)
                   (relationships s)\<rparr>)"

definition deleteRelationship :: "string \<Rightarrow> string \<Rightarrow> string \<Rightarrow> SchemaStore \<Rightarrow> SchemaStore" where
  "deleteRelationship now now' relationshipId state =
     updateAndRecompile now now' state
       (\<lambda>s. s\<lparr>relationships := filter (\<lambda>r. rel_id r \<noteq> relationshipId) (relationships s)\<rparr>)"

text \<open>\<^verbatim>\<open>changeCardinality\<close>: the descriptor is computed from the first relationship with
  the id, and written to every relationship with the id.\<close>

definition new_junction :: "RelationshipDefinition \<Rightarrow> Cardinality \<Rightarrow> JunctionTable option" where
  "new_junction rel c =
     (if c = ManyToMany
      then Some \<lparr>jt_name = sourceTable rel @ ''_'' @ targetTable rel,
                 jt_sourceColumn = toLowerCase (sourceTable rel) @ ''_id'',
                 jt_targetColumn = toLowerCase (targetTable rel) @ ''_id''\<rparr>
      else None)"

definition changeCardinality ::
    "string \<Rightarrow> string \<Rightarrow> string \<Rightarrow> Cardinality \<Rightarrow> SchemaStore \<Rightarrow> SchemaStore" where
  "changeCardinality now now' relationshipId c state =
     (case (case schema state of None \<Rightarrow> None
            | Some s \<Rightarrow> find (\<lambda>r. rel_id r = relationshipId) (relationships s)) of
        None \<Rightarrow> state
      | Some rel \<Rightarrow>
          (let junction = new_junction rel c
           in updateAndRecompile now now' state
                (\<lambda>s. s\<lparr>relationships :=
                          map (\<lambda>r. if rel_id r = relationshipId
                                   then r\<lparr>cardinality := c, junctionTable := junction\<rparr> else r)
                            (relationships s)\<rparr>)))"


section \<open>Notions used to state the properties\<close>

text \<open>The junction descriptor of a relationship is present exactly when the relationship is
  many-to-many.\<close>

definition junction_inv :: "RelationshipDefinition \<Rightarrow> bool" where
  "junction_inv r = ((junctionTable r \<noteq> None) = (cardinality r = ManyToMany))"

definition schema_inv :: "SchemaDefinition \<Rightarrow> bool" where
  "schema_inv s = list_all junction_inv (relationships s)"

definition store_inv :: "SchemaStore \<Rightarrow> bool" where
  "store_inv state = (case schema state of None \<Rightarrow> True | Some s \<Rightarrow> schema_inv s)"

text \<open>Both endpoints of every relationship name a table of the schema.\<close>

definition resolvable :: "SchemaDefinition \<Rightarrow> bool" where
  "resolvable s =
     list_all (\<lambda>r. sourceTable r \<in> set (map tbl_name (tables s))
                  \<and> targetTable r \<in> set (map tbl_name (tables s)))
       (relationships s)"

text \<open>The lines of a text: \<^verbatim>\<open>text.split('\n')\<close>.\<close>

primrec lines_of :: "string \<Rightarrow> string list" where
  "lines_of [] = [[]]"
| "lines_of (c # cs) =
     (if c = nl then [] # lines_of cs else (c # hd (lines_of cs)) # tl (lines_of cs))"

text \<open>A string without a line break.\<close>

definition nl_free :: "string \<Rightarrow> bool" where
  "nl_free s = (nl \<notin> set s)"

text \<open>The lines of a text that satisfy a predicate, in their order.\<close>

definition select_lines :: "(string \<Rightarrow> bool) \<Rightarrow> string \<Rightarrow> string list" where
  "select_lines P text = filter P (lines_of text)"

text \<open>A line that starts a \<^verbatim>\<open>CREATE TABLE\<close> statement, an \<^verbatim>\<open>ALTER TABLE\<close> statement, either
  of them, or a \<^verbatim>\<open>PRIMARY KEY\<close> constraint of a table.\<close>

definition is_create_table :: "string \<Rightarrow> bool" where
  "is_create_table l = prefix ''CREATE TABLE '' l"

definition is_alter_table :: "string \<Rightarrow> bool" where
  "is_alter_table l = prefix ''ALTER TABLE '' l"

definition is_head :: "string \<Rightarrow> bool" where
  "is_head l = (is_create_table l \<or> is_alter_table l)"

definition is_primary_key :: "string \<Rightarrow> bool" where
  "is_primary_key l = prefix ''  PRIMARY KEY ('' l"

text \<open>The lines of \<^verbatim>\<open>columnDefs.join(',\n')\<close>: every definition but the last is followed
  by a comma; no definition gives one empty line.\<close>

fun comma_lines :: "string list \<Rightarrow> string list" where
  "comma_lines [] = [[]]"
| "comma_lines [x] = [x]"
| "comma_lines (x # y # zs) = (x @ '','') # comma_lines (y # zs)"

text \<open>The first characters of a column line: two spaces and the opening quote.\<close>

definition col_prefix :: "SQLDialect \<Rightarrow> string" where
  "col_prefix d = ''  '' @ (if d = PostgreSQL then dquote else backtick)"

text \<open>
  A plain schema: no name, comment, description, enum value or string default contains a
  line break, and no line of a procedure body starts a \<^verbatim>\<open>CREATE TABLE\<close> or \<^verbatim>\<open>ALTER TABLE\<close>
  statement. The properties that read the compiled SQL line by line are stated for plain
  schemas.
\<close>

definition opt_all :: "('a \<Rightarrow> bool) \<Rightarrow> 'a option \<Rightarrow> bool" where
  "opt_all P x = (case x of None \<Rightarrow> True | Some v \<Rightarrow> P v)"

definition plain_column :: "ColumnDefinition \<Rightarrow> bool" where
  "plain_column c =
     (nl_free (col_name c) \<and> opt_all (list_all nl_free) (enumValues c)
      \<and> opt_all nl_free (col_comment c)
      \<and> (case defaultValue c of Some (DVString v) \<Rightarrow> nl_free v | _ \<Rightarrow> True))"

definition plain_index :: "IndexDefinition \<Rightarrow> bool" where
  "plain_index i = (nl_free (idx_name i) \<and> list_all nl_free (idx_columns i))"

definition plain_fk :: "ForeignKeyDefinition \<Rightarrow> bool" where
  "plain_fk f =
     (nl_free (constraintName f) \<and> nl_free (columnName f) \<and> nl_free (referencedTable f)
      \<and> nl_free (referencedColumn f))"

definition plain_table :: "TableDefinition \<Rightarrow> bool" where
  "plain_table t =
     (nl_free (tbl_name t) \<and> opt_all nl_free (tbl_schema t) \<and> opt_all nl_free (tbl_comment t)
      \<and> list_all plain_column (columns t) \<and> list_all plain_index (indexes t)
      \<and> list_all plain_fk (foreignKeys t))"

definition plain_rel :: "RelationshipDefinition \<Rightarrow> bool" where
  "plain_rel r =
     (nl_free (sourceTable r) \<and> nl_free (sourceColumn r) \<and> nl_free (targetTable r)
      \<and> nl_free (targetColumn r)
      \<and> opt_all (\<lambda>j. nl_free (jt_name j) \<and> nl_free (jt_sourceColumn j) \<and> nl_free (jt_targetColumn j))
            (junctionTable r))"

definition plain_proc :: "StoredProcedureDefinition \<Rightarrow> bool" where
  "plain_proc p =
     (nl_free (proc_name p) \<and> opt_all nl_free (proc_comment p)
      \<and> list_all (\<lambda>q. nl_free (par_name q)) (parameters p)
      \<and> select_lines is_head (body p) = [])"

definition plain_schema :: "SchemaDefinition \<Rightarrow> bool" where
  "plain_schema S =
     (nl_free (sch_name S) \<and> nl_free (description S) \<and> list_all plain_table (tables S)
      \<and> list_all plain_rel (relationships S) \<and> list_all plain_proc (storedProcedures S))"

text \<open>The foreign keys of a schema in the order in which
  \<^verbatim>\<open>generateImplicitRelationships\<close> visits them, each as the pair (name of the owning
  table, name of the referenced table).\<close>

definition fk_pairs :: "SchemaDefinition \<Rightarrow> (string \<times> string) list" where
  "fk_pairs S =
     concat (map (\<lambda>t. map (\<lambda>fk. (tbl_name t, referencedTable fk)) (foreignKeys t)) (tables S))"

text \<open>The unordered pair of two table names.\<close>

definition unordered :: "string \<times> string \<Rightarrow> string set" where
  "unordered p = {fst p, snd p}"

text \<open>An explicit relationship of the schema connects the two tables, in either direction.\<close>

definition covered :: "SchemaDefinition \<Rightarrow> string \<times> string \<Rightarrow> bool" where
  "covered S p =
     list_ex (\<lambda>r. unordered (sourceTable r, targetTable r) = unordered p) (relationships S)"

text \<open>
  The inference as the specification words it: go through the foreign keys; skip one whose
  unordered table pair is already covered (by an explicit relationship or by an earlier
  foreign key), otherwise keep it and track its pair.
\<close>

fun first_uncovered :: "(string \<times> string) list \<Rightarrow> (string \<times> string) list \<Rightarrow> (string \<times> string) list" where
  "first_uncovered seen [] = []"
| "first_uncovered seen (p # ps) =
     (if list_ex (\<lambda>q. unordered q = unordered p) seen then first_uncovered seen ps
      else p # first_uncovered (p # seen) ps)"

definition implicit_pairs :: "SchemaDefinition \<Rightarrow> (string \<times> string) list" where
  "implicit_pairs S =
     first_uncovered (map (\<lambda>r. (sourceTable r, targetTable r)) (relationships S)) (fk_pairs S)"

text \<open>No name of a table and no target of a foreign key contains the hyphen that separates
  the two names of a key of \<^verbatim>\<open>existingRels\<close>.\<close>

definition no_hyphen :: "string \<Rightarrow> bool" where
  "no_hyphen s = (CHR ''-'' \<notin> set s)"

definition hyphen_free :: "SchemaDefinition \<Rightarrow> bool" where
  "hyphen_free S =
     list_all (\<lambda>t. no_hyphen (tbl_name t)
                  \<and> list_all (\<lambda>fk. no_hyphen (referencedTable fk)) (foreignKeys t)) (tables S)"

text \<open>The step of \<^verbatim>\<open>generateImplicitRelationships\<close> on a pair (owning table, referenced
  table).\<close>

definition pair_step :: "string \<times> string \<Rightarrow> string list \<times> string set \<Rightarrow> string list \<times> string set" where
  "pair_step p st =
     (if rel_key (fst p) (snd p) \<notin> snd st \<and> rel_key (snd p) (fst p) \<notin> snd st
      then (fst st @ [implicit_line (fst p) (snd p)], insert (rel_key (fst p) (snd p)) (snd st))
      else st)"


section \<open>Example schemas\<close>

definition ex_column :: ColumnDefinition where
  "ex_column =
     \<lparr>col_id = ''c1'', col_name = ''id'', col_type = CT_integer, col_length = None,
      col_precision = None, col_scale = None, isPrimaryKey = False, isNullable = True,
      isUnique = False, defaultValue = None, enumValues = None, col_comment = None\<rparr>"

definition ex_table :: TableDefinition where
  "ex_table =
     \<lparr>tbl_id = ''t1'', tbl_name = ''Users'', tbl_schema = None, columns = [], indexes = [],
      foreignKeys = [], tbl_comment = None\<rparr>"

definition ex_rel :: RelationshipDefinition where
  "ex_rel =
     \<lparr>rel_id = ''r1'', rel_name = ''user_roles'', sourceTable = ''Users'', sourceColumn = ''id'',
      targetTable = ''Roles'', targetColumn = ''id'', cardinality = OneToMany,
      rel_onDelete = CASCADE, junctionTable = None\<rparr>"

definition ex_schema :: SchemaDefinition where
  "ex_schema =
     \<lparr>sch_id = ''s1'', sch_name = ''App'', description = [], dialect = PostgreSQL,
      tables = [ex_table, ex_table\<lparr>tbl_id := ''t2'', tbl_name := ''Roles''\<rparr>],
      relationships = [ex_rel, ex_rel\<lparr>rel_id := ''r2'', sourceTable := ''Roles''\<rparr>],
      storedProcedures = [], createdAt = ''t0'', updatedAt = ''t0''\<rparr>"

definition ex_store :: SchemaStore where
  "ex_store =
     \<lparr>schema = Some ex_schema, compiledSQL = [], compiledMermaid = [], isLoading = False,
      isGenerating = False, store_error = None, selectedTableId = None,
      selectedRelationshipId = None, userPrompt = []\<rparr>"

text \<open>The partial relationship \<^verbatim>\<open>{ cardinality: c }\<close>.\<close>

definition only_cardinality :: "Cardinality \<Rightarrow> RelationshipUpdates" where
  "only_cardinality c =
     \<lparr>upd_id = None, upd_name = None, upd_sourceTable = None, upd_sourceColumn = None,
      upd_targetTable = None, upd_targetColumn = None, upd_cardinality = Some c,
      upd_onDelete = None, upd_junctionTable = None\<rparr>"

text \<open>A table with a composite primary key, a relationship with a junction table, and a
  foreign key: the data of the witnesses of the SQL claims.\<close>

definition ex_members :: TableDefinition where
  "ex_members =
     \<lparr>tbl_id = ''t3'', tbl_name = ''members'', tbl_schema = None,
      columns = [ex_column\<lparr>col_name := ''team_id'', isPrimaryKey := True, isNullable := False\<rparr>,
                 ex_column\<lparr>col_id := ''c2'', col_name := ''user_id'', isPrimaryKey := True\<rparr>,
                 ex_column\<lparr>col_id := ''c3'', col_name := ''role'', col_type := CT_text,
                            isNullable := False\<rparr>],
      indexes = [],
      foreignKeys = [\<lparr>fk_id = ''f1'', constraintName = ''fk_user'', columnName = ''user_id'',
                      referencedTable = ''Users'', referencedColumn = ''id'',
                      fk_onDelete = CASCADE, fk_onUpdate = None\<rparr>],
      tbl_comment = None\<rparr>"

definition ex_many :: RelationshipDefinition where
  "ex_many =
     ex_rel\<lparr>cardinality := ManyToMany,
            junctionTable := Some \<lparr>jt_name = ''Users_Roles'', jt_sourceColumn = ''users_id'',
                                    jt_targetColumn = ''roles_id''\<rparr>\<rparr>"

definition ex_sql :: SchemaDefinition where
  "ex_sql = ex_schema\<lparr>tables := [ex_members], relationships := [ex_many]\<rparr>"

text \<open>A schema whose only table has the name of the junction table of its only
  relationship.\<close>

definition ex_collision :: SchemaDefinition where
  "ex_collision =
     ex_schema\<lparr>tables := [ex_table\<lparr>tbl_name := ''Users_Roles''\<rparr>], relationships := [ex_many]\<rparr>"

text \<open>Two tables that reference each other.\<close>

definition ex_fk :: "string \<Rightarrow> ForeignKeyDefinition" where
  "ex_fk target =
     \<lparr>fk_id = ''f1'', constraintName = ''fk'', columnName = ''ref_id'', referencedTable = target,
      referencedColumn = ''id'', fk_onDelete = CASCADE, fk_onUpdate = None\<rparr>"

definition ex_mutual :: SchemaDefinition where
  "ex_mutual =
     ex_schema\<lparr>tables := [ex_table\<lparr>tbl_name := ''a'', foreignKeys := [ex_fk ''b'']\<rparr>,
                          ex_table\<lparr>tbl_id := ''t2'', tbl_name := ''b'', foreignKeys := [ex_fk ''a'']\<rparr>],
               relationships := []\<rparr>"

text \<open>Tables \<^verbatim>\<open>a\<close> and \<^verbatim>\<open>b\<close> reference each other, \<^verbatim>\<open>b\<close> references \<^verbatim>\<open>c\<close> twice and
  \<^verbatim>\<open>d\<close> once, and an explicit relationship connects \<^verbatim>\<open>d\<close> to \<^verbatim>\<open>b\<close>.\<close>

definition ex_diagram :: SchemaDefinition where
  "ex_diagram =
     ex_schema\<lparr>tables := [ex_table\<lparr>tbl_name := ''a'', foreignKeys := [ex_fk ''b'']\<rparr>,
                          ex_table\<lparr>tbl_id := ''t2'', tbl_name := ''b'',
                                   foreignKeys := [ex_fk ''a'', ex_fk ''c'', ex_fk ''c'', ex_fk ''d'']\<rparr>],
               relationships := [ex_rel\<lparr>sourceTable := ''d'', targetTable := ''b''\<rparr>]\<rparr>"


section \<open>Auxiliary lemmas\<close>

subsection \<open>Blank sections\<close>

lemma trim_nonblank: "\<not> is_space c \<Longrightarrow> trim (c # s) \<noteq> []"
  by (simp add: trim_def dropWhile_eq_Nil_conv)

lemma header_nonblank: "trim (generateHeader now S) \<noteq> []"
  by (simp add: generateHeader_def header_rule_def Let_def trim_nonblank is_space_def)

lemma tables_nonblank: "trim (generateTables S) \<noteq> []"
  by (simp add: generateTables_def trim_nonblank is_space_def)

subsection \<open>The store\<close>

lemma schema_updateAndRecompile:
  "schema state = Some s \<Longrightarrow>
   updateAndRecompile now now' state f =
     state\<lparr>schema := Some (f (s\<lparr>updatedAt := now\<rparr>)),
           compiledSQL := compileSQL now' (f (s\<lparr>updatedAt := now\<rparr>)),
           compiledMermaid := compileMermaid (f (s\<lparr>updatedAt := now\<rparr>))\<rparr>"
  by (simp add: updateAndRecompile_def Let_def)

lemma updateAndRecompile_None:
  "schema state = None \<Longrightarrow> updateAndRecompile now now' state f = state"
  by (simp add: updateAndRecompile_def)

lemma find_Some_mem: "find P xs = Some x \<Longrightarrow> x \<in> set xs \<and> P x"
  by (induction xs) (auto split: if_splits)

lemma find_id_distinct:
  "distinct (map tbl_id ts) \<Longrightarrow> find (\<lambda>t. tbl_id t = tid) ts = Some table \<Longrightarrow>
   t \<in> set ts \<Longrightarrow> tbl_id t = tid \<Longrightarrow> t = table"
proof (induction ts)
  case Nil
  then show ?case by simp
next
  case (Cons a ts)
  then show ?case
    by (auto split: if_splits)
qed

lemma resolvable_deleteTable:
  assumes d: "distinct (map tbl_id (tables s))"
    and f: "find (\<lambda>t. tbl_id t = tid) (tables s) = Some table"
    and r: "resolvable s"
  shows "resolvable (s\<lparr>updatedAt := now,
            tables := filter (\<lambda>t. tbl_id t \<noteq> tid) (tables s),
            relationships :=
              filter (\<lambda>r. sourceTable r \<noteq> tbl_name table \<and> targetTable r \<noteq> tbl_name table)
                (relationships s)\<rparr>)"
proof -
  have keep: "n \<in> set (map tbl_name (filter (\<lambda>t. tbl_id t \<noteq> tid) (tables s)))"
    if "n \<in> set (map tbl_name (tables s))" "n \<noteq> tbl_name table" for n
  proof -
    from that(1) obtain t where t: "t \<in> set (tables s)" "tbl_name t = n" by auto
    have "tbl_id t \<noteq> tid"
      using find_id_distinct [OF d f t(1)] t(2) that(2) by auto
    with t show ?thesis by force
  qed
  show ?thesis
    using r unfolding resolvable_def list_all_iff
    by (auto intro!: keep [simplified])
qed

lemma store_inv_Some: "schema state = Some s \<Longrightarrow> store_inv state = schema_inv s"
  by (simp add: store_inv_def)

lemma store_inv_update:
  "schema state = Some s \<Longrightarrow>
   store_inv (updateAndRecompile now now' state f) = schema_inv (f (s\<lparr>updatedAt := now\<rparr>))"
  by (simp add: schema_updateAndRecompile store_inv_def)

lemma inv_changeCardinality:
  "store_inv state \<Longrightarrow> store_inv (changeCardinality now now' rid c state)"
proof (cases "schema state")
  case None
  then show ?thesis by (simp add: changeCardinality_def store_inv_def)
next
  case (Some s)
  assume "store_inv state"
  with Some have i: "schema_inv s" by (simp add: store_inv_Some)
  show ?thesis
  proof (cases "find (\<lambda>r. rel_id r = rid) (relationships s)")
    case None
    with Some i show ?thesis by (simp add: changeCardinality_def store_inv_Some)
  next
    case (Some rel)
    with \<open>schema state = Some s\<close> i show ?thesis
      by (auto simp: changeCardinality_def Let_def store_inv_update schema_inv_def list_all_iff
          junction_inv_def new_junction_def)
  qed
qed

lemma inv_deleteRelationship:
  "store_inv state \<Longrightarrow> store_inv (deleteRelationship now now' rid state)"
proof (cases "schema state")
  case None
  then show ?thesis by (simp add: deleteRelationship_def updateAndRecompile_None store_inv_def)
next
  case (Some s)
  assume "store_inv state"
  with Some have i: "schema_inv s" by (simp add: store_inv_Some)
  with Some show ?thesis
    by (simp add: deleteRelationship_def store_inv_update schema_inv_def list_all_iff)
qed

lemma inv_deleteTable: "store_inv state \<Longrightarrow> store_inv (deleteTable now now' tid state)"
proof (cases "schema state")
  case None
  then show ?thesis by (simp add: deleteTable_def store_inv_def)
next
  case (Some s)
  assume "store_inv state"
  with Some have i: "schema_inv s" by (simp add: store_inv_Some)
  show ?thesis
  proof (cases "find (\<lambda>t. tbl_id t = tid) (tables s)")
    case None
    with Some i show ?thesis by (simp add: deleteTable_def store_inv_Some)
  next
    case (Some table)
    with \<open>schema state = Some s\<close> i show ?thesis
      by (simp add: deleteTable_def store_inv_update schema_inv_def list_all_iff)
  qed
qed

lemma inv_addRelationship:
  "schema state = Some s \<Longrightarrow>
   store_inv (addRelationship now now' nid r state) = (schema_inv s \<and> junction_inv r)"
  by (simp add: addRelationship_def store_inv_update schema_inv_def junction_inv_def)

lemma inv_updateRelationship:
  "schema state = Some s \<Longrightarrow>
   store_inv (updateRelationship now now' rid u state)
     = list_all (\<lambda>r. junction_inv (if rel_id r = rid then spread_relationship r u else r))
         (relationships s)"
  by (simp add: updateRelationship_def store_inv_update schema_inv_def list.pred_map comp_def)

lemma changeCardinality_schema:
  assumes "schema state = Some s" and "find (\<lambda>r. rel_id r = rid) (relationships s) = Some rel"
  shows "schema (changeCardinality now now' rid c state)
    = Some (s\<lparr>updatedAt := now,
              relationships :=
                map (\<lambda>r. if rel_id r = rid
                         then r\<lparr>cardinality := c, junctionTable := new_junction rel c\<rparr> else r)
                  (relationships s)\<rparr>)"
  using assms by (simp add: changeCardinality_def Let_def schema_updateAndRecompile)

lemma junction_inv_new: "junction_inv (r\<lparr>cardinality := c, junctionTable := new_junction rel c\<rparr>)"
  by (simp add: junction_inv_def new_junction_def)

lemma changeCardinality_found:
  assumes "schema state = Some s" and "find (\<lambda>r. rel_id r = rid) (relationships s) = Some rel"
  shows "\<exists>s'. schema (changeCardinality now now' rid c state) = Some s'
     \<and> tables s' = tables s
     \<and> relationships s' =
         map (\<lambda>r. if rel_id r = rid
                  then r\<lparr>cardinality := c,
                         junctionTable :=
                           (if c = ManyToMany
                            then Some \<lparr>jt_name = sourceTable rel @ ''_'' @ targetTable rel,
                                       jt_sourceColumn = toLowerCase (sourceTable rel) @ ''_id'',
                                       jt_targetColumn = toLowerCase (targetTable rel) @ ''_id''\<rparr>
                            else None)\<rparr>
                  else r) (relationships s)
     \<and> list_all (\<lambda>r. rel_id r \<noteq> rid \<or> junction_inv r) (relationships s')"
proof -
  have "list_all (\<lambda>r. rel_id r \<noteq> rid \<or> junction_inv r)
          (map (\<lambda>r. if rel_id r = rid
                    then r\<lparr>cardinality := c, junctionTable := new_junction rel c\<rparr> else r)
             (relationships s))"
    by (simp add: list.pred_map comp_def junction_inv_new list.pred_True)
  then show ?thesis
    unfolding changeCardinality_schema [OF assms]
    by (simp add: new_junction_def)
qed

lemma deleteTable_found:
  assumes s: "schema state = Some s"
    and f: "find (\<lambda>t. tbl_id t = tableId) (tables s) = Some table"
  shows "\<exists>s'. deleteTable now now' tableId state
           = state\<lparr>schema := Some s', compiledSQL := compileSQL now' s',
                   compiledMermaid := compileMermaid s'\<rparr>
         \<and> tables s' = filter (\<lambda>t. tbl_id t \<noteq> tableId) (tables s)
         \<and> table \<notin> set (tables s')
         \<and> relationships s'
             = filter (\<lambda>r. sourceTable r \<noteq> tbl_name table \<and> targetTable r \<noteq> tbl_name table)
                 (relationships s)
         \<and> storedProcedures s' = storedProcedures s
         \<and> sch_name s' = sch_name s \<and> dialect s' = dialect s \<and> description s' = description s
         \<and> (distinct (map tbl_id (tables s)) \<and> resolvable s \<longrightarrow> resolvable s')"
proof -
  let ?s' = "s\<lparr>updatedAt := now,
            tables := filter (\<lambda>t. tbl_id t \<noteq> tableId) (tables s),
            relationships :=
              filter (\<lambda>r. sourceTable r \<noteq> tbl_name table \<and> targetTable r \<noteq> tbl_name table)
                (relationships s)\<rparr>"
  have 1: "deleteTable now now' tableId state
           = state\<lparr>schema := Some ?s', compiledSQL := compileSQL now' ?s',
                   compiledMermaid := compileMermaid ?s'\<rparr>"
    by (simp add: deleteTable_def s f schema_updateAndRecompile)
  have 2: "table \<notin> set (tables ?s')"
    using find_Some_mem [OF f] by simp
  have 3: "distinct (map tbl_id (tables s)) \<and> resolvable s \<longrightarrow> resolvable ?s'"
    using resolvable_deleteTable [OF _ f] by blast
  show ?thesis
    apply (rule exI [of _ ?s'])
    using 1 2 3 by simp
qed

subsection \<open>Lines of a text\<close>

lemma lines_of_nonempty [simp]: "lines_of s \<noteq> []"
  by (induction s) simp_all

lemma lines_of_append_nl: "lines_of (a @ nl # b) = lines_of a @ lines_of b"
  by (induction a) simp_all

lemma lines_of_nl_free: "nl_free s \<Longrightarrow> lines_of s = [s]"
  by (induction s) (auto simp: nl_free_def)

lemma nl_free_append [simp]: "nl_free (a @ b) = (nl_free a \<and> nl_free b)"
  by (auto simp: nl_free_def)

lemma nl_free_Nil [simp]: "nl_free []"
  by (simp add: nl_free_def)

lemma nl_free_Cons [simp]: "nl_free (c # s) = (c \<noteq> nl \<and> nl_free s)"
  by (auto simp: nl_free_def)

lemma join_Cons: "join sep (x # xs) = x @ concat (map (\<lambda>y. sep @ y) xs)"
  by (induction xs arbitrary: x) simp_all

lemma lines_of_join_nl: "xs \<noteq> [] \<Longrightarrow> lines_of (join [nl] xs) = concat (map lines_of xs)"
proof (induction xs rule: induct_list012)
  case (3 x y zs)
  have "lines_of (join [nl] (x # y # zs)) = lines_of x @ lines_of (join [nl] (y # zs))"
    by (simp add: lines_of_append_nl)
  with 3 show ?case by simp
qed simp_all

lemma lines_of_join_lines:
  "xs \<noteq> [] \<Longrightarrow> list_all nl_free xs \<Longrightarrow> lines_of (join [nl] xs) = xs"
proof -
  assume ne: "xs \<noteq> []" and fr: "list_all nl_free xs"
  from fr have "concat (map lines_of xs) = xs"
    by (induction xs) (simp_all add: lines_of_nl_free)
  with ne show ?thesis by (simp add: lines_of_join_nl)
qed

lemma nl_free_join: "nl_free sep \<Longrightarrow> list_all nl_free xs \<Longrightarrow> nl_free (join sep xs)"
  by (induction xs rule: induct_list012) simp_all

lemma nl_free_quote [simp]: "nl_free (quote d x) = nl_free x"
  by (simp add: quote_def)

lemma nl_free_digit: "n < 10 \<Longrightarrow> digit n \<noteq> nl"
proof -
  assume "n < 10"
  then have "digit n \<in> set ''0123456789''"
    unfolding digit_def by (intro nth_mem) simp
  then show ?thesis
    by auto
qed

lemma nl_free_show_nat: "nl_free (show_nat n)"
proof (induction n rule: show_nat.induct)
  case (1 n)
  show ?case
  proof (cases "n < 10")
    case True
    then show ?thesis
      by (subst show_nat.simps) (simp add: nl_free_digit)
  next
    case False
    have "n mod 10 < 10" by simp
    with False 1 show ?thesis
      by (subst show_nat.simps) (simp add: nl_free_digit)
  qed
qed

lemma nl_free_strip_zeros: "nl_free s \<Longrightarrow> nl_free (strip_zeros s)"
  unfolding strip_zeros_def nl_free_def using set_dropWhileD by fastforce

lemma nl_free_take: "nl_free s \<Longrightarrow> nl_free (take n s)"
  unfolding nl_free_def by (auto dest: in_set_takeD)

lemma nl_free_drop: "nl_free s \<Longrightarrow> nl_free (drop n s)"
  unfolding nl_free_def by (auto dest: in_set_dropD)

lemma nl_free_zeros: "nl_free (zeros n)"
  by (simp add: zeros_def nl_free_def)

lemma nl_free_exponent_text: "nl_free (exponent_text n)"
  by (simp add: exponent_text_def nl_free_show_nat)

lemma nl_free_positive_toString: "nl_free (positive_toString m e)"
  by (simp add: positive_toString_def Let_def nl_free_show_nat nl_free_strip_zeros nl_free_take
      nl_free_drop nl_free_zeros nl_free_exponent_text)

lemma nl_free_number_toString [simp]: "nl_free (number_toString x)"
  by (cases x) (simp_all add: nl_free_positive_toString)

lemma show_nat_numeral:
  "show_nat (numeral v) =
     (if (numeral v :: nat) < 10 then [digit (numeral v)]
      else show_nat (numeral v div 10) @ [digit (numeral v mod 10)])"
  by (subst show_nat.simps) (rule refl)

lemma show_nat_0: "show_nat 0 = ''0''"
  by (subst show_nat.simps) (simp add: digit_def)

lemma show_nat_1: "show_nat (Suc 0) = ''1''"
  by (subst show_nat.simps) (simp add: digit_def)

lemma zeros_numeral: "replicate (numeral k) x = x # replicate (pred_numeral k) x"
  by (simp add: numeral_eq_Suc)

lemmas number_text =
  positive_toString_def strip_zeros_def zeros_def exponent_text_def digit_def Let_def
  show_nat_numeral show_nat_0 show_nat_1 zeros_numeral

lemma nl_free_typeMapping [simp]: "nl_free (typeMapping d t)"
  by (cases d; cases t) simp_all

lemma nl_free_action_text [simp]: "nl_free (action_text a)"
  by (cases a) simp_all

lemma nl_free_escapeString [simp]: "nl_free (escapeString s) = nl_free s"
  by (induction s) (simp_all add: escapeString_def)

subsection \<open>Selecting lines\<close>

lemma select_append_nl: "select_lines P (a @ nl # b) = select_lines P a @ select_lines P b"
  by (simp add: select_lines_def lines_of_append_nl)

lemma select_Nil: "\<not> P [] \<Longrightarrow> select_lines P [] = []"
  by (simp add: select_lines_def)

lemma select_line: "nl_free l \<Longrightarrow> select_lines P l = (if P l then [l] else [])"
  by (simp add: select_lines_def lines_of_nl_free)

lemma select_join_nl:
  "\<not> P [] \<Longrightarrow> select_lines P (join [nl] xs) = concat (map (select_lines P) xs)"
proof (induction xs rule: induct_list012)
  case (3 x y zs)
  have "select_lines P (join [nl] (x # y # zs))
          = select_lines P x @ select_lines P (join [nl] (y # zs))"
    by (simp add: select_append_nl)
  with 3 show ?case by simp
qed (simp_all add: select_Nil)

lemma select_nl_Cons: "\<not> P [] \<Longrightarrow> select_lines P (nl # b) = select_lines P b"
  using select_append_nl [of P "[]" b] by (simp add: select_Nil)

lemma select_join_nl2:
  "\<not> P [] \<Longrightarrow> select_lines P (join [nl, nl] xs) = concat (map (select_lines P) xs)"
proof (induction xs rule: induct_list012)
  case (3 x y zs)
  have "select_lines P (join [nl, nl] (x # y # zs))
          = select_lines P x @ select_lines P (join [nl, nl] (y # zs))"
    using 3(3) by (simp add: select_append_nl select_nl_Cons)
  with 3 show ?case by simp
qed (simp_all add: select_Nil)

lemma lines_of_comma:
  "list_all nl_free xs \<Longrightarrow> lines_of (join ('','' @ [nl]) xs) = comma_lines xs"
proof (induction xs rule: induct_list012)
  case (3 x y zs)
  have "join ('','' @ [nl]) (x # y # zs) = (x @ '','') @ nl # join ('','' @ [nl]) (y # zs)"
    by simp
  then have "lines_of (join ('','' @ [nl]) (x # y # zs))
           = lines_of (x @ '','') @ lines_of (join ('','' @ [nl]) (y # zs))"
    by (simp only: lines_of_append_nl)
  with 3 show ?case by (simp add: lines_of_nl_free)
qed (simp_all add: lines_of_nl_free)

lemma not_head_Nil [simp]: "\<not> is_head []"
  by (simp add: is_head_def is_create_table_def is_alter_table_def)

subsection \<open>Single-line parts\<close>

lemma nl_free_quote_value [simp]: "nl_free (quote_value v) = nl_free v"
  by (simp add: quote_value_def)

lemma list_all_quote_value: "list_all nl_free (map quote_value vs) = list_all nl_free vs"
  by (simp add: list.pred_map comp_def)

lemma nl_free_getColumnType:
  assumes "nl_free (tbl_name t)" and "plain_column c"
  shows "nl_free (getColumnType d c t)"
proof -
  have n: "nl_free (col_name c)"
    using assms(2) by (simp add: plain_column_def)
  have e: "list_all nl_free (case enumValues c of None \<Rightarrow> [] | Some vs \<Rightarrow> vs)"
    using assms(2) by (simp add: plain_column_def opt_all_def split: option.splits)
  have "nl_free (join '', '' (map quote_value (case enumValues c of None \<Rightarrow> [] | Some vs \<Rightarrow> vs)))"
    by (rule nl_free_join) (simp_all add: list_all_quote_value e)
  then show ?thesis
    using assms(1) n by (simp add: getColumnType_def Let_def)
qed

lemma nl_free_formatDefaultValue: "plain_column c \<Longrightarrow> nl_free (formatDefaultValue d c)"
  by (auto simp: plain_column_def formatDefaultValue_def split: option.splits DefaultValue.splits)

lemma nl_free_generateColumn:
  assumes "nl_free (tbl_name t)" and "plain_column c"
  shows "nl_free (generateColumn d c t)"
proof -
  have "nl_free (col_name c)"
    using assms(2) by (simp add: plain_column_def)
  then have "list_all nl_free (column_parts d c t)"
    using nl_free_getColumnType [OF assms] nl_free_formatDefaultValue [OF assms(2)]
    by (simp add: column_parts_def)
  then show ?thesis
    unfolding generateColumn_def by (intro nl_free_join) simp_all
qed

lemma nl_free_qualified_name: "plain_table t \<Longrightarrow> nl_free (qualified_name d t)"
  by (cases "tbl_schema t") (simp_all add: plain_table_def qualified_name_def opt_all_def)

lemma nl_free_engine_suffix [simp]: "nl_free (engine_suffix d)"
  by (simp add: engine_suffix_def)

lemma nl_free_pk_names:
  "list_all plain_column cs \<Longrightarrow> nl_free (join '', '' (map (\<lambda>c. quote d (col_name c)) cs))"
  by (rule nl_free_join) (simp_all add: list.pred_map comp_def plain_column_def list_all_iff)

lemma nl_free_columnDefs: "plain_table t \<Longrightarrow> list_all nl_free (columnDefs d t)"
proof -
  assume p: "plain_table t"
  then have cols: "list_all plain_column (columns t)" and n: "nl_free (tbl_name t)"
    by (simp_all add: plain_table_def)
  have 1: "list_all nl_free (map (\<lambda>col. generateColumn d col t) (columns t))"
    using cols n by (simp add: list.pred_map comp_def list_all_iff nl_free_generateColumn)
  have "list_all plain_column (filter isPrimaryKey (columns t))"
    using cols by (simp add: list_all_iff)
  then have 2: "nl_free (join '', '' (map (\<lambda>c. quote d (col_name c)) (filter isPrimaryKey (columns t))))"
    by (rule nl_free_pk_names)
  show ?thesis
    using 1 2 by (simp add: columnDefs_def Let_def)
qed

lemma nl_free_table_comment_line: "plain_table t \<Longrightarrow> list_all nl_free (table_comment_line t)"
  by (cases "tbl_comment t") (simp_all add: table_comment_line_def plain_table_def opt_all_def)

lemma nl_free_column_comments: "plain_table t \<Longrightarrow> list_all nl_free (column_comments d t)"
proof -
  assume p: "plain_table t"
  have "nl_free (the (col_comment c))" if "c \<in> set (columns t)" "truthy (col_comment c)" for c
    using that p by (cases "col_comment c") (auto simp: plain_table_def list_all_iff plain_column_def opt_all_def)
  moreover have "nl_free (col_name c)" if "c \<in> set (columns t)" for c
    using that p by (auto simp: plain_table_def list_all_iff plain_column_def)
  ultimately show ?thesis
    using nl_free_qualified_name [OF p, of d]
    by (simp add: column_comments_def list.pred_map comp_def list_all_iff)
qed

lemma nl_free_comment_statements: "plain_table t \<Longrightarrow> list_all nl_free (comment_statements d t)"
proof -
  assume p: "plain_table t"
  have "nl_free (the (tbl_comment t))" if "truthy (tbl_comment t)"
    using that p by (cases "tbl_comment t") (simp_all add: plain_table_def opt_all_def)
  then show ?thesis
    using nl_free_qualified_name [OF p, of d] nl_free_column_comments [OF p, of d]
    by (auto simp: comment_statements_def)
qed

subsection \<open>The lines of a table\<close>

lemma lines_generateTable:
  assumes p: "plain_table t"
  shows "lines_of (generateTable d t)
       = table_comment_line t
         @ [''CREATE TABLE '' @ qualified_name d t @ '' ('']
         @ comma_lines (columnDefs d t)
         @ ['')'' @ engine_suffix d @ '';'']
         @ comment_statements d t"
proof -
  have c: "concat (map lines_of xs) = xs" if "list_all nl_free xs" for xs
    using that by (induction xs) (simp_all add: lines_of_nl_free)
  have "lines_of (generateTable d t) = concat (map lines_of (table_lines d t))"
    unfolding generateTable_def by (rule lines_of_join_nl) (simp add: table_lines_def)
  also have "\<dots> = concat (map lines_of (table_comment_line t))
         @ lines_of (''CREATE TABLE '' @ qualified_name d t @ '' ('')
         @ lines_of (join ('','' @ [nl]) (columnDefs d t))
         @ lines_of ('')'' @ engine_suffix d @ '';'')
         @ concat (map lines_of (comment_statements d t))"
    by (simp add: table_lines_def)
  also have "\<dots> = table_comment_line t
         @ [''CREATE TABLE '' @ qualified_name d t @ '' ('']
         @ comma_lines (columnDefs d t)
         @ ['')'' @ engine_suffix d @ '';'']
         @ comment_statements d t"
    using c [OF nl_free_table_comment_line [OF p]] c [OF nl_free_comment_statements [OF p]]
      lines_of_comma [OF nl_free_columnDefs [OF p]] nl_free_qualified_name [OF p, of d]
    by (simp add: lines_of_nl_free)
  finally show ?thesis .
qed

subsection \<open>Statement heads of the sections\<close>

lemma generateColumn_prefix: "prefix (col_prefix d) (generateColumn d c t)"
  by (simp add: generateColumn_def column_parts_def col_prefix_def quote_def)

lemma col_prefix_not_head: "prefix (col_prefix d) l \<Longrightarrow> \<not> is_head (l @ r)"
  by (cases d)
     (auto simp: prefix_def col_prefix_def is_head_def is_create_table_def is_alter_table_def)

lemma col_prefix_not_pk: "prefix (col_prefix d) l \<Longrightarrow> \<not> is_primary_key (l @ r)"
  by (cases d) (auto simp: prefix_def col_prefix_def is_primary_key_def)

lemma indent_not_head: "prefix ''  '' l \<Longrightarrow> \<not> is_head (l @ r)"
  by (auto simp: prefix_def is_head_def is_create_table_def is_alter_table_def)

lemma filter_comma_lines_none:
  "\<not> P [] \<Longrightarrow> (\<And>x r. x \<in> set xs \<Longrightarrow> \<not> P (x @ r)) \<Longrightarrow> filter P (comma_lines xs) = []"
proof (induction xs rule: induct_list012)
  case 1
  then show ?case by simp
next
  case (2 x)
  from 2(2) [of x "[]"] show ?case by simp
next
  case (3 x y zs)
  have "\<not> P (x @ '','')" using 3(4) [of x "'',''"] by simp
  moreover have "filter P (comma_lines (y # zs)) = []"
    using 3 by simp
  ultimately show ?case by simp
qed

lemma filter_comma_lines_last:
  "(\<And>x r. x \<in> set xs \<Longrightarrow> \<not> P (x @ r)) \<Longrightarrow>
   filter P (comma_lines (xs @ [y])) = (if P y then [y] else [])"
proof (induction xs)
  case Nil
  then show ?case by simp
next
  case (Cons x xs)
  obtain z zs where e: "xs @ [y] = z # zs"
    by (cases "xs @ [y]") simp_all
  have "\<not> P (x @ '','')" using Cons(2) [of x "'',''"] by simp
  moreover have "filter P (comma_lines (xs @ [y])) = (if P y then [y] else [])"
    using Cons by simp
  ultimately show ?case
    by (simp add: e)
qed

lemma generateColumn_indented: "prefix ''  '' (generateColumn d c t)"
  by (simp add: generateColumn_def column_parts_def)

lemma columnDefs_cases:
  assumes "x \<in> set (columnDefs d t)"
  obtains c where "c \<in> set (columns t)" and "x = generateColumn d c t"
  | "filter isPrimaryKey (columns t) \<noteq> []"
    and "x = ''  PRIMARY KEY (''
             @ join '', '' (map (\<lambda>c. quote d (col_name c)) (filter isPrimaryKey (columns t))) @ '')''"
  using assms by (auto simp: columnDefs_def Let_def split: if_splits)

lemma columnDefs_indented: "x \<in> set (columnDefs d t) \<Longrightarrow> prefix ''  '' x"
  by (erule columnDefs_cases) (simp_all add: generateColumn_indented)

lemma columnDefs_not_head: "x \<in> set (columnDefs d t) \<Longrightarrow> \<not> is_head (x @ r)"
  by (rule indent_not_head) (rule columnDefs_indented)

lemma heads_comma_columnDefs: "filter is_head (comma_lines (columnDefs d t)) = []"
  by (rule filter_comma_lines_none) (simp_all add: columnDefs_not_head)

lemma heads_table_comment_line: "filter is_head (table_comment_line t) = []"
  by (simp add: table_comment_line_def is_head_def is_create_table_def is_alter_table_def)

lemma heads_comment_statements: "filter is_head (comment_statements d t) = []"
  by (auto simp: comment_statements_def column_comments_def is_head_def is_create_table_def
      is_alter_table_def filter_empty_conv)

lemma heads_generateTable:
  "plain_table t \<Longrightarrow>
   select_lines is_head (generateTable d t) = [''CREATE TABLE '' @ qualified_name d t @ '' ('']"
  by (simp add: select_lines_def lines_generateTable heads_comma_columnDefs
      heads_table_comment_line heads_comment_statements)
     (simp add: is_head_def is_create_table_def is_alter_table_def)

lemma heads_table_list:
  "list_all plain_table ts \<Longrightarrow>
   concat (map (select_lines is_head) (map (generateTable d) ts))
     = map (\<lambda>t. ''CREATE TABLE '' @ qualified_name d t @ '' ('') ts"
  by (induction ts) (simp_all add: heads_generateTable)

lemma heads_generateTables:
  assumes "list_all plain_table (tables S)"
  shows "select_lines is_head (generateTables S)
       = map (\<lambda>t. ''CREATE TABLE '' @ qualified_name (dialect S) t @ '' ('') (tables S)"
proof -
  have "generateTables S
      = ''-- Tables'' @ nl # join [nl, nl] (map (generateTable (dialect S)) (tables S))"
    by (simp add: generateTables_def)
  then have "select_lines is_head (generateTables S)
      = select_lines is_head ''-- Tables''
        @ select_lines is_head (join [nl, nl] (map (generateTable (dialect S)) (tables S)))"
    by (simp only: select_append_nl)
  also have "select_lines is_head ''-- Tables'' = []"
    by (simp add: select_line is_head_def is_create_table_def is_alter_table_def)
  also have "select_lines is_head (join [nl, nl] (map (generateTable (dialect S)) (tables S)))
      = concat (map (select_lines is_head) (map (generateTable (dialect S)) (tables S)))"
    by (rule select_join_nl2) simp
  also have "\<dots> = map (\<lambda>t. ''CREATE TABLE '' @ qualified_name (dialect S) t @ '' ('') (tables S)"
    using assms by (rule heads_table_list)
  finally show ?thesis by simp
qed

lemma select_lines_list:
  "\<not> P [] \<Longrightarrow> list_all nl_free ls \<Longrightarrow> select_lines P (join [nl] ls) = filter P ls"
  by (induction ls) (simp_all add: select_join_nl select_line)

lemma select_titled:
  "nl_free title \<Longrightarrow> \<not> P title \<Longrightarrow> select_lines P (title @ nl # rest) = select_lines P rest"
  by (simp add: select_append_nl select_line)

lemma select_section:
  "nl_free title \<Longrightarrow> \<not> P title \<Longrightarrow> \<not> P [] \<Longrightarrow>
   select_lines P (if b then title @ [nl] @ rest else []) = (if b then select_lines P rest else [])"
  by (simp add: select_append_nl select_line select_Nil)

lemma not_head_simps:
  "\<not> is_head (CHR ''-'' # l)" "\<not> is_head (CHR '' '' # l)" "\<not> is_head (CHR '')'' # l)"
  "\<not> is_head (CHR ''$'' # l)" "\<not> is_head (CHR ''D'' # l)" "\<not> is_head (CHR ''B'' # l)"
  "\<not> is_head (CHR ''E'' # l)" "\<not> is_head (CHR ''R'' # l)" "\<not> is_head (CHR ''L'' # l)"
  "\<not> is_head (''AS '' @ l)" "\<not> is_head (''COMMENT'' @ l)"
  "\<not> is_head (''CREATE S'' @ l)" "\<not> is_head (''CREATE TY'' @ l)" "\<not> is_head (''CREATE I'' @ l)"
  "\<not> is_head (''CREATE U'' @ l)" "\<not> is_head (''CREATE O'' @ l)" "\<not> is_head (''CREATE P'' @ l)"
  by (simp_all add: is_head_def is_create_table_def is_alter_table_def)

subsection \<open>Header\<close>

lemma generateHeader_lines:
  "generateHeader now S
     = join [nl]
        [header_rule, ''-- Database Schema: '' @ sch_name S,
         ''-- Dialect: '' @ (if dialect S = PostgreSQL then ''PostgreSQL'' else ''MySQL''),
         ''-- Generated: '' @ now,
         ''-- Description: '' @ or_else (Some (description S)) ''Auto-generated schema'',
         header_rule]"
  by (simp add: generateHeader_def Let_def)

lemma heads_generateHeader:
  "nl_free (sch_name S) \<Longrightarrow> nl_free (description S) \<Longrightarrow> nl_free now \<Longrightarrow>
   select_lines is_head (generateHeader now S) = []"
  unfolding generateHeader_lines
  by (subst select_lines_list) (simp_all add: header_rule_def not_head_simps)

subsection \<open>Schema statements\<close>

lemma set_fold_schemas:
  "set (fold (\<lambda>t acc. if truthy (tbl_schema t) \<and> tbl_schema t \<noteq> Some ''public''
                           then set_add acc (the (tbl_schema t)) else acc) ts acc)
     \<subseteq> set acc \<union> {the (tbl_schema t) | t. t \<in> set ts \<and> truthy (tbl_schema t)}"
proof (induction ts arbitrary: acc)
  case Nil
  then show ?case by simp
next
  case (Cons t ts)
  show ?case
    using Cons [of "if truthy (tbl_schema t) \<and> tbl_schema t \<noteq> Some ''public''
                           then set_add acc (the (tbl_schema t)) else acc"]
    by (auto simp: set_add_def split: if_splits)
qed

lemma nl_free_the_schema:
  "list_all plain_table ts \<Longrightarrow> t \<in> set ts \<Longrightarrow> truthy (tbl_schema t) \<Longrightarrow> nl_free (the (tbl_schema t))"
  by (cases "tbl_schema t") (auto simp: list_all_iff plain_table_def opt_all_def)

lemma heads_generateSchemaStatements:
  assumes "list_all plain_table (tables S)"
  shows "select_lines is_head (generateSchemaStatements S) = []"
proof -
  let ?schemas = "fold (\<lambda>t acc. if truthy (tbl_schema t) \<and> tbl_schema t \<noteq> Some ''public''
                           then set_add acc (the (tbl_schema t)) else acc) (tables S) []"
  have "nl_free s" if "s \<in> set ?schemas" for s
    using set_fold_schemas [of "tables S" "[]"] that nl_free_the_schema [OF assms] by auto
  then have fr: "list_all nl_free
                  (map (\<lambda>s. ''CREATE SCHEMA IF NOT EXISTS '' @ quote (dialect S) s @ '';'') ?schemas)"
    by (simp add: list.pred_map comp_def list_all_iff)
  have "select_lines is_head
          (join [nl] (map (\<lambda>s. ''CREATE SCHEMA IF NOT EXISTS '' @ quote (dialect S) s @ '';'') ?schemas))
        = []"
    by (subst select_lines_list [OF _ fr])
       (simp_all add: filter_empty_conv is_head_def is_create_table_def is_alter_table_def)
  then show ?thesis
    by (simp add: generateSchemaStatements_def Let_def select_Nil)
qed

subsection \<open>Enum types\<close>

lemma nl_free_enum_statement:
  assumes "plain_table t" and "c \<in> set (columns t)" and "has_enum_values c"
  shows "nl_free (enum_statement t c)"
proof -
  have pc: "plain_column c" and n: "nl_free (tbl_name t)"
    using assms(1,2) by (simp_all add: plain_table_def list_all_iff)
  from assms(3) obtain vs where vs: "enumValues c = Some vs"
    by (cases "enumValues c") (simp_all add: has_enum_values_def)
  with pc have "list_all nl_free vs" and "nl_free (col_name c)"
    by (simp_all add: plain_column_def opt_all_def)
  then have "nl_free (join '', '' (map quote_value vs))" and "nl_free (col_name c)"
    by (simp_all add: nl_free_join list_all_quote_value)
  then show ?thesis
    using n vs by (simp add: enum_statement_def)
qed

lemma heads_generateEnumTypes:
  assumes "list_all plain_table (tables S)"
  shows "select_lines is_head (generateEnumTypes S) = []"
proof -
  let ?enums = "concat (map (\<lambda>table. map (enum_statement table)
                                          (filter has_enum_values (columns table))) (tables S))"
  have fr: "list_all nl_free ?enums"
    using assms by (auto simp: list_all_iff nl_free_enum_statement)
  have "filter is_head ?enums = []"
    by (auto simp: filter_empty_conv enum_statement_def is_head_def is_create_table_def
        is_alter_table_def)
  then have "select_lines is_head (join [nl] ?enums) = []"
    by (simp add: select_lines_list [OF _ fr])
  moreover have "select_lines is_head (generateEnumTypes S)
      = (if length ?enums > 0 then select_lines is_head (join [nl] ?enums) else [])"
    unfolding generateEnumTypes_def Let_def
    by (rule select_section) (simp_all add: not_head_simps)
  ultimately show ?thesis by simp
qed

subsection \<open>Indexes\<close>

lemma nl_free_index_statement:
  assumes "plain_table t" and "i \<in> set (indexes t)"
  shows "nl_free (index_statement d t i)"
proof -
  have "plain_index i"
    using assms by (simp add: plain_table_def list_all_iff)
  then have n: "nl_free (idx_name i)" and "list_all nl_free (idx_columns i)"
    by (simp_all add: plain_index_def)
  then have c: "nl_free (join '', '' (map (quote d) (idx_columns i)))"
    by (intro nl_free_join) (simp_all add: list.pred_map comp_def)
  have t: "nl_free (index_type_text (the (idx_type i)))"
    by (cases "the (idx_type i)") simp_all
  show ?thesis
    using n c t nl_free_qualified_name [OF assms(1), of d]
    by (simp add: index_statement_def Let_def)
qed

lemma index_statement_not_head: "\<not> is_head (index_statement d t i)"
  by (simp add: index_statement_def Let_def is_head_def is_create_table_def is_alter_table_def)

lemma heads_generateIndexes:
  assumes "list_all plain_table (tables S)"
  shows "select_lines is_head (generateIndexes S) = []"
proof -
  let ?idxs = "concat (map (\<lambda>table. map (index_statement (dialect S) table) (indexes table))
                           (tables S))"
  have fr: "list_all nl_free ?idxs"
    using assms by (auto simp: list_all_iff nl_free_index_statement)
  have "filter is_head ?idxs = []"
    by (auto simp: filter_empty_conv index_statement_not_head)
  then have "select_lines is_head (join [nl] ?idxs) = []"
    by (simp add: select_lines_list [OF _ fr])
  moreover have "select_lines is_head (generateIndexes S)
      = (if length ?idxs > 0 then select_lines is_head (join [nl] ?idxs) else [])"
    unfolding generateIndexes_def Let_def
    by (rule select_section) (simp_all add: not_head_simps)
  ultimately show ?thesis by simp
qed

subsection \<open>Foreign keys\<close>

lemma fk_statement_lines:
  "fk_statement d t fk
     = join [nl]
        [''ALTER TABLE '' @ qualified_name d t,
         ''  ADD CONSTRAINT '' @ quote d (constraintName fk),
         ''  FOREIGN KEY ('' @ quote d (columnName fk) @ '')'',
         ''  REFERENCES '' @ quote d (referencedTable fk) @ '' ('' @ quote d (referencedColumn fk) @ '')'',
         ''  ON DELETE '' @ action_text (fk_onDelete fk)
           @ (case fk_onUpdate fk of None \<Rightarrow> [] | Some a \<Rightarrow> '' ON UPDATE '' @ action_text a)
           @ '';'']"
  by (simp add: fk_statement_def)

lemma heads_fk_statement:
  assumes "plain_table t" and "plain_fk fk"
  shows "select_lines is_head (fk_statement d t fk) = [''ALTER TABLE '' @ qualified_name d t]"
proof -
  have u: "nl_free (case fk_onUpdate fk of None \<Rightarrow> [] | Some a \<Rightarrow> '' ON UPDATE '' @ action_text a)"
    by (cases "fk_onUpdate fk") simp_all
  show ?thesis
    unfolding fk_statement_lines
    using assms(2) u nl_free_qualified_name [OF assms(1), of d]
    by (subst select_lines_list)
       (simp_all add: plain_fk_def is_head_def is_create_table_def is_alter_table_def)
qed

lemma heads_fk_list:
  "plain_table t \<Longrightarrow> list_all plain_fk fks \<Longrightarrow>
   concat (map (select_lines is_head) (map (fk_statement d t) fks))
     = map (\<lambda>fk. ''ALTER TABLE '' @ qualified_name d t) fks"
  by (induction fks) (simp_all add: heads_fk_statement)

lemma heads_fk_tables:
  "list_all plain_table ts \<Longrightarrow>
   concat (map (select_lines is_head)
      (concat (map (\<lambda>t. map (fk_statement d t) (foreignKeys t)) ts)))
     = concat (map (\<lambda>t. map (\<lambda>fk. ''ALTER TABLE '' @ qualified_name d t) (foreignKeys t)) ts)"
proof (induction ts)
  case Nil
  then show ?case by simp
next
  case (Cons t ts)
  then have "plain_table t" and "list_all plain_fk (foreignKeys t)"
    by (simp_all add: plain_table_def)
  from heads_fk_list [OF this] Cons show ?case by simp
qed

lemma heads_generateForeignKeys:
  assumes "list_all plain_table (tables S)"
  shows "select_lines is_head (generateForeignKeys S)
       = concat (map (\<lambda>t. map (\<lambda>fk. ''ALTER TABLE '' @ qualified_name (dialect S) t) (foreignKeys t))
                   (tables S))"
proof -
  let ?fks = "concat (map (\<lambda>table. map (fk_statement (dialect S) table) (foreignKeys table))
                          (tables S))"
  have "select_lines is_head (generateForeignKeys S)
      = (if length ?fks > 0 then select_lines is_head (join [nl, nl] ?fks) else [])"
    unfolding generateForeignKeys_def Let_def
    by (rule select_section) (simp_all add: not_head_simps)
  also have "\<dots> = concat (map (select_lines is_head) ?fks)"
    by (simp add: select_join_nl2)
  finally show ?thesis
    by (simp only: heads_fk_tables [OF assms])
qed

subsection \<open>Junction tables\<close>

lemma junction_statement_lines:
  "junction_statement d rel
     = join [nl]
        [''-- Junction table for '' @ sourceTable rel @ '' <-> '' @ targetTable rel,
         ''CREATE TABLE '' @ quote d (jt_name (the (junctionTable rel))) @ '' ('',
         ''  '' @ quote d (jt_sourceColumn (the (junctionTable rel))) @ '' ''
           @ (if d = PostgreSQL then ''INTEGER'' else ''INT'') @ '' NOT NULL,'',
         ''  '' @ quote d (jt_targetColumn (the (junctionTable rel))) @ '' ''
           @ (if d = PostgreSQL then ''INTEGER'' else ''INT'') @ '' NOT NULL,'',
         ''  created_at TIMESTAMP DEFAULT CURRENT_TIMESTAMP,'',
         ''  PRIMARY KEY ('' @ quote d (jt_sourceColumn (the (junctionTable rel))) @ '', ''
           @ quote d (jt_targetColumn (the (junctionTable rel))) @ ''),'',
         ''  FOREIGN KEY ('' @ quote d (jt_sourceColumn (the (junctionTable rel))) @ '') REFERENCES ''
           @ quote d (sourceTable rel) @ '' ('' @ quote d (sourceColumn rel) @ '') ON DELETE CASCADE,'',
         ''  FOREIGN KEY ('' @ quote d (jt_targetColumn (the (junctionTable rel))) @ '') REFERENCES ''
           @ quote d (targetTable rel) @ '' ('' @ quote d (targetColumn rel) @ '') ON DELETE CASCADE'',
         '')'' @ engine_suffix d @ '';'']"
  by (simp add: junction_statement_def Let_def)

lemma heads_junction_statement:
  assumes "plain_rel r" and "is_junction r"
  shows "select_lines is_head (junction_statement d r)
       = [''CREATE TABLE '' @ quote d (jt_name (the (junctionTable r))) @ '' ('']"
proof -
  from assms(2) obtain j where j: "junctionTable r = Some j"
    by (cases "junctionTable r") (simp_all add: is_junction_def)
  with assms(1) have n: "nl_free (sourceTable r)" "nl_free (sourceColumn r)" "nl_free (targetTable r)"
      "nl_free (targetColumn r)" "nl_free (jt_name j)" "nl_free (jt_sourceColumn j)"
      "nl_free (jt_targetColumn j)"
    by (simp_all add: plain_rel_def opt_all_def)
  show ?thesis
    unfolding junction_statement_lines
    using n j
    by (subst select_lines_list)
       (simp_all add: is_head_def is_create_table_def is_alter_table_def)
qed

lemma heads_junction_list:
  "list_all plain_rel rs \<Longrightarrow>
   concat (map (select_lines is_head) (map (junction_statement d) (filter is_junction rs)))
     = map (\<lambda>r. ''CREATE TABLE '' @ quote d (jt_name (the (junctionTable r))) @ '' ('')
         (filter is_junction rs)"
  by (induction rs) (simp_all add: heads_junction_statement)

lemma heads_generateJunctionTables:
  assumes "list_all plain_rel (relationships S)"
  shows "select_lines is_head (generateJunctionTables S)
       = map (\<lambda>r. ''CREATE TABLE '' @ quote (dialect S) (jt_name (the (junctionTable r))) @ '' ('')
           (filter is_junction (relationships S))"
proof -
  let ?js = "map (junction_statement (dialect S)) (filter is_junction (relationships S))"
  have "select_lines is_head (generateJunctionTables S)
      = (if length ?js > 0 then select_lines is_head (join [nl, nl] ?js) else [])"
    unfolding generateJunctionTables_def Let_def
    by (rule select_section) (simp_all add: not_head_simps)
  also have "\<dots> = concat (map (select_lines is_head) ?js)"
    by (simp add: select_join_nl2)
  finally show ?thesis
    by (simp only: heads_junction_list [OF assms])
qed

subsection \<open>Stored procedures\<close>

lemma select_section_else:
  "nl_free title \<Longrightarrow> \<not> P title \<Longrightarrow> \<not> P [] \<Longrightarrow>
   select_lines P (if b then [] else title @ [nl] @ rest) = (if b then [] else select_lines P rest)"
  by (simp add: select_append_nl select_line select_Nil)

lemma nl_free_direction_text [simp]: "nl_free (direction_text x)"
  by (cases x) simp_all

lemma nl_free_language_text [simp]: "nl_free (language_text x)"
  by (cases x) simp_all

lemma generatePostgresFunction_lines:
  "generatePostgresFunction proc
     = join [nl]
        [''-- '' @ or_else (proc_comment proc) (proc_name proc),
         ''CREATE OR REPLACE FUNCTION '' @ quote PostgreSQL (proc_name proc) @ ''(''
           @ join '', ''
               (map (\<lambda>p. par_name p @ '' ''
                       @ (if direction p \<noteq> IN then direction_text (direction p) @ '' '' else [])
                       @ typeMapping PostgreSQL (par_type p))
                  (parameters proc)) @ '')'',
         ''RETURNS '' @ (case returnType proc of
                  None \<Rightarrow> ''VOID''
                | Some RT_void \<Rightarrow> ''VOID''
                | Some RT_table \<Rightarrow> ''TABLE''
                | Some (RT_column ct) \<Rightarrow> typeMapping PostgreSQL ct),
         ''LANGUAGE '' @ (case language proc of None \<Rightarrow> ''plpgsql'' | Some l \<Rightarrow> language_text l),
         ''AS $$'',
         body proc,
         ''$$;'']"
  by (simp add: generatePostgresFunction_def Let_def)

lemma generateMySQLProcedure_lines:
  "generateMySQLProcedure proc
     = join [nl]
        [''-- '' @ or_else (proc_comment proc) (proc_name proc),
         ''DELIMITER //'',
         ''CREATE PROCEDURE '' @ quote MySQL (proc_name proc) @ ''(''
           @ join '', ''
            (map (\<lambda>p. direction_text (direction p) @ '' '' @ par_name p @ '' ''
                       @ typeMapping MySQL (par_type p))
               (parameters proc)) @ '')'',
         ''BEGIN'',
         body proc,
         ''END //'',
         ''DELIMITER ;'']"
  by (simp add: generateMySQLProcedure_def Let_def)

lemma nl_free_or_else: "opt_all nl_free c \<Longrightarrow> nl_free n \<Longrightarrow> nl_free (or_else c n)"
  by (cases c) (simp_all add: opt_all_def)

lemma heads_generatePostgresFunction:
  assumes "plain_proc p"
  shows "select_lines is_head (generatePostgresFunction p) = []"
proof -
  have c: "nl_free (or_else (proc_comment p) (proc_name p))" and n: "nl_free (proc_name p)"
    and b: "select_lines is_head (body p) = []"
    using assms by (simp_all add: plain_proc_def nl_free_or_else)
  have "list_all (\<lambda>q. nl_free (par_name q)) (parameters p)"
    using assms by (simp add: plain_proc_def)
  then have ps: "nl_free (join '', ''
               (map (\<lambda>p. par_name p @ '' ''
                       @ (if direction p \<noteq> IN then direction_text (direction p) @ '' '' else [])
                       @ typeMapping PostgreSQL (par_type p))
                  (parameters p)))"
    by (intro nl_free_join) (simp_all add: list.pred_map comp_def list_all_iff)
  have r: "nl_free (case returnType p of
                  None \<Rightarrow> ''VOID''
                | Some RT_void \<Rightarrow> ''VOID''
                | Some RT_table \<Rightarrow> ''TABLE''
                | Some (RT_column ct) \<Rightarrow> typeMapping PostgreSQL ct)"
    by (simp split: option.splits ReturnType.splits)
  have l: "nl_free (case language p of None \<Rightarrow> ''plpgsql'' | Some l \<Rightarrow> language_text l)"
    by (simp split: option.splits)
  show ?thesis
    unfolding generatePostgresFunction_lines
    using c n b ps r l
    by (subst select_join_nl)
       (simp_all add: select_line is_head_def is_create_table_def is_alter_table_def)
qed

lemma heads_generateMySQLProcedure:
  assumes "plain_proc p"
  shows "select_lines is_head (generateMySQLProcedure p) = []"
proof -
  have c: "nl_free (or_else (proc_comment p) (proc_name p))" and n: "nl_free (proc_name p)"
    and b: "select_lines is_head (body p) = []"
    using assms by (simp_all add: plain_proc_def nl_free_or_else)
  have "list_all (\<lambda>q. nl_free (par_name q)) (parameters p)"
    using assms by (simp add: plain_proc_def)
  then have ps: "nl_free (join '', ''
            (map (\<lambda>p. direction_text (direction p) @ '' '' @ par_name p @ '' ''
                       @ typeMapping MySQL (par_type p))
               (parameters p)))"
    by (intro nl_free_join) (simp_all add: list.pred_map comp_def list_all_iff)
  show ?thesis
    unfolding generateMySQLProcedure_lines
    using c n b ps
    by (subst select_join_nl)
       (simp_all add: select_line is_head_def is_create_table_def is_alter_table_def)
qed

lemma heads_generateStoredProcedures:
  assumes "list_all plain_proc (storedProcedures S)"
  shows "select_lines is_head (generateStoredProcedures S) = []"
proof -
  let ?ps = "map (\<lambda>proc. if dialect S = PostgreSQL then generatePostgresFunction proc
                            else generateMySQLProcedure proc) (storedProcedures S)"
  have "select_lines is_head (generateStoredProcedures S)
      = (if length (storedProcedures S) = 0 then [] else select_lines is_head (join [nl, nl] ?ps))"
    unfolding generateStoredProcedures_def
    by (rule select_section_else) (simp_all add: not_head_simps)
  also have "\<dots> = concat (map (select_lines is_head) ?ps)"
    by (simp add: select_join_nl2)
  also have "\<dots> = []"
    using assms
    by (auto simp: list_all_iff heads_generatePostgresFunction heads_generateMySQLProcedure)
  finally show ?thesis .
qed

subsection \<open>The whole output\<close>

lemma set_lines_of: "l \<in> set (lines_of x) \<Longrightarrow> set l \<subseteq> set x"
proof (induction x arbitrary: l)
  case Nil
  then show ?case by simp
next
  case (Cons c x)
  have h: "set (hd (lines_of x)) \<subseteq> set x"
    using Cons.IH [of "hd (lines_of x)"] by simp
  have t: "l' \<in> set (tl (lines_of x)) \<Longrightarrow> set l' \<subseteq> set x" for l'
    using Cons.IH [of l'] by (cases "lines_of x") simp_all
  from Cons.prems show ?case
    using h t Cons.IH [of l] by (auto split: if_splits)
qed

lemma blank_chars: "trim x = [] \<Longrightarrow> c \<in> set x \<Longrightarrow> is_space c"
proof -
  assume t: "trim x = []" and c: "c \<in> set x"
  from t have "dropWhile is_space (rev (dropWhile is_space x)) = []"
    by (simp add: trim_def)
  then have "\<forall>y\<in>set (dropWhile is_space x). is_space y"
    by (simp add: dropWhile_eq_Nil_conv)
  moreover have "c \<in> set (takeWhile is_space x) \<or> c \<in> set (dropWhile is_space x)"
    using c by (metis Un_iff set_append takeWhile_dropWhile_id)
  ultimately show ?thesis
    by (auto dest: set_takeWhileD)
qed

lemma head_has_letter: "is_head l \<Longrightarrow> CHR ''T'' \<in> set l"
  by (auto simp: is_head_def is_create_table_def is_alter_table_def prefix_def)

lemma blank_no_heads: "trim x = [] \<Longrightarrow> select_lines is_head x = []"
proof -
  assume t: "trim x = []"
  have "\<not> is_head l" if "l \<in> set (lines_of x)" for l
  proof
    assume "is_head l"
    then have "CHR ''T'' \<in> set x"
      using head_has_letter set_lines_of [OF that] by blast
    from blank_chars [OF t this] show False
      by (simp add: is_space_def)
  qed
  then show ?thesis
    by (simp add: select_lines_def filter_empty_conv)
qed

lemma heads_filter_blank:
  "concat (map (select_lines is_head) (filter (\<lambda>s. trim s \<noteq> []) xs))
     = concat (map (select_lines is_head) xs)"
  by (induction xs) (simp_all add: blank_no_heads)

lemma heads_push_if:
  "concat (map (select_lines is_head) (push_if x)) = select_lines is_head x"
  by (simp add: push_if_def select_Nil)

lemma heads_compile:
  assumes p: "plain_schema S" and n: "nl_free now"
  shows "select_lines is_head (compile now S)
       = map (\<lambda>t. ''CREATE TABLE '' @ qualified_name (dialect S) t @ '' ('') (tables S)
         @ concat (map (\<lambda>t. map (\<lambda>fk. ''ALTER TABLE '' @ qualified_name (dialect S) t) (foreignKeys t))
                     (tables S))
         @ map (\<lambda>r. ''CREATE TABLE '' @ quote (dialect S) (jt_name (the (junctionTable r))) @ '' ('')
             (filter is_junction (relationships S))"
proof -
  from p have ts: "list_all plain_table (tables S)" and rs: "list_all plain_rel (relationships S)"
    and ps: "list_all plain_proc (storedProcedures S)"
    and nm: "nl_free (sch_name S)" "nl_free (description S)"
    by (simp_all add: plain_schema_def)
  have "select_lines is_head (compile now S)
      = concat (map (select_lines is_head) (sections now S))"
    unfolding compile_def by (simp add: select_join_nl2 heads_filter_blank)
  also have "\<dots> = select_lines is_head (generateHeader now S)
      @ (if dialect S = PostgreSQL \<and> list_ex (\<lambda>t. truthy (tbl_schema t)) (tables S)
         then select_lines is_head (generateSchemaStatements S) else [])
      @ (if dialect S = PostgreSQL then select_lines is_head (generateEnumTypes S) else [])
      @ select_lines is_head (generateTables S)
      @ select_lines is_head (generateIndexes S)
      @ select_lines is_head (generateForeignKeys S)
      @ select_lines is_head (generateJunctionTables S)
      @ select_lines is_head (generateStoredProcedures S)"
    by (simp add: sections_def heads_push_if)
  finally show ?thesis
    by (simp add: heads_generateHeader [OF nm n] heads_generateSchemaStatements [OF ts]
        heads_generateEnumTypes [OF ts] heads_generateTables [OF ts] heads_generateIndexes [OF ts]
        heads_generateForeignKeys [OF ts] heads_generateJunctionTables [OF rs]
        heads_generateStoredProcedures [OF ps])
qed

lemma compile_split:
  "compile now S
     = generateHeader now S
       @ concat (map (\<lambda>y. [nl, nl] @ y) (filter (\<lambda>s. trim s \<noteq> []) (tl (sections now S))))"
  by (simp add: compile_def sections_def header_nonblank join_Cons)

lemma tl_sections: "tl (sections now S) = tl (sections now' S)"
  by (simp add: sections_def)

subsection \<open>Selecting the statements of a kind\<close>

lemma create_is_head: "select_lines is_create_table x = filter is_create_table (select_lines is_head x)"
proof -
  have "((is_create_table l \<or> is_alter_table l) \<and> is_create_table l) = is_create_table l" for l
    by blast
  then show ?thesis
    by (simp add: select_lines_def is_head_def)
qed

subsection \<open>Substrings\<close>

lemma sublist_join: "x \<in> set xs \<Longrightarrow> sublist x (join sep xs)"
proof (induction xs rule: induct_list012)
  case (3 y z zs)
  show ?case
  proof (cases "x = y")
    case True
    then show ?thesis by simp
  next
    case False
    with 3 have "sublist x (join sep (z # zs))" by simp
    then obtain ps ss where "join sep (z # zs) = ps @ x @ ss"
      by (auto simp: sublist_def)
    then have "join sep (y # z # zs) = (y @ sep @ ps) @ x @ ss"
      by simp
    then show ?thesis
      unfolding sublist_def by blast
  qed
qed simp_all

lemma comma_lines_snoc: "comma_lines (xs @ [y]) = map (\<lambda>x. x @ '','') xs @ [y]"
proof (induction xs)
  case Nil
  then show ?case by simp
next
  case (Cons x xs)
  obtain z zs where e: "xs @ [y] = z # zs"
    by (cases "xs @ [y]") simp_all
  have "comma_lines (x # xs @ [y]) = (x @ '','') # comma_lines (xs @ [y])"
    by (simp add: e)
  with Cons show ?case by simp
qed


lemma sublist_transitive: "sublist a b \<Longrightarrow> sublist b c \<Longrightarrow> sublist a c"
  by (rule sublist_order.order_trans)

subsection \<open>The junction section in the output\<close>

lemma section_in_compile:
  "x \<in> set (sections now S) \<Longrightarrow> trim x \<noteq> [] \<Longrightarrow> sublist x (compile now S)"
  unfolding compile_def by (rule sublist_join) simp

lemma junction_section_nonblank:
  "filter is_junction (relationships S) \<noteq> [] \<Longrightarrow> trim (generateJunctionTables S) \<noteq> []"
  by (simp add: generateJunctionTables_def trim_nonblank is_space_def)

lemma junction_section_in_sections:
  "filter is_junction (relationships S) \<noteq> [] \<Longrightarrow>
   generateJunctionTables S \<in> set (sections now S)"
proof -
  assume "filter is_junction (relationships S) \<noteq> []"
  then have "generateJunctionTables S \<noteq> []"
    by (simp add: generateJunctionTables_def)
  then show ?thesis
    by (simp add: sections_def push_if_def)
qed

lemma junction_statement_in_section:
  assumes "r \<in> set (relationships S)" and "is_junction r"
  shows "sublist (junction_statement (dialect S) r) (generateJunctionTables S)"
proof -
  let ?js = "map (junction_statement (dialect S)) (filter is_junction (relationships S))"
  have m: "junction_statement (dialect S) r \<in> set ?js"
    using assms by simp
  have "filter is_junction (relationships S) \<noteq> []"
    using assms by (auto simp: filter_empty_conv)
  then have "?js \<noteq> []" by simp
  then have "generateJunctionTables S
      = (''-- Junction Tables (Many-to-Many)'' @ [nl]) @ join [nl, nl] ?js @ []"
    by (simp add: generateJunctionTables_def)
  then have "sublist (join [nl, nl] ?js) (generateJunctionTables S)"
    by (simp only: sublist_appendI)
  moreover have "sublist (junction_statement (dialect S) r) (join [nl, nl] ?js)"
    using m by (rule sublist_join)
  ultimately show ?thesis
    by (rule sublist_transitive [rotated])
qed

lemma junction_statement_in_compile:
  assumes "r \<in> set (relationships S)" and "is_junction r"
  shows "sublist (junction_statement (dialect S) r) (compile now S)"
proof -
  have ne: "filter is_junction (relationships S) \<noteq> []"
    using assms by (auto simp: filter_empty_conv)
  have "sublist (generateJunctionTables S) (compile now S)"
    using junction_section_in_sections [OF ne] junction_section_nonblank [OF ne]
    by (rule section_in_compile)
  with junction_statement_in_section [OF assms] show ?thesis
    by (rule sublist_transitive)
qed

subsection \<open>The primary key constraint\<close>

lemma generateColumn_not_pk: "\<not> is_primary_key (generateColumn d c t @ r)"
  by (rule col_prefix_not_pk) (rule generateColumn_prefix)

lemma pk_table_comment_line: "filter is_primary_key (table_comment_line t) = []"
  by (simp add: table_comment_line_def is_primary_key_def)

lemma pk_comment_statements: "filter is_primary_key (comment_statements d t) = []"
  by (auto simp: comment_statements_def column_comments_def is_primary_key_def filter_empty_conv)

lemma pk_column_lines:
  "filter is_primary_key (map (\<lambda>c. generateColumn d c t @ '','') cs) = []"
  by (simp add: filter_empty_conv generateColumn_not_pk)

subsection \<open>Implicit relationships\<close>

lemma implicit_step_pair:
  "implicit_step t fk st = pair_step (tbl_name t, referencedTable fk) st"
  by (cases st) (simp add: implicit_step_def pair_step_def Let_def)

lemma fold_implicit_step:
  "fold (implicit_step t) fks st
     = fold pair_step (map (\<lambda>fk. (tbl_name t, referencedTable fk)) fks) st"
  by (induction fks arbitrary: st) (simp_all add: implicit_step_pair)

lemma fold_tables_pairs:
  "fold (\<lambda>table st. fold (implicit_step table) (foreignKeys table) st) ts st
     = fold pair_step
         (concat (map (\<lambda>t. map (\<lambda>fk. (tbl_name t, referencedTable fk)) (foreignKeys t)) ts)) st"
  by (induction ts arbitrary: st) (simp_all add: fold_implicit_step)

lemma generateImplicitRelationships_pairs:
  "generateImplicitRelationships S = fst (fold pair_step (fk_pairs S) ([], explicit_keys S))"
  by (simp add: generateImplicitRelationships_def fold_tables_pairs fk_pairs_def)

lemma rel_key_inject:
  "no_hyphen a \<Longrightarrow> no_hyphen b \<Longrightarrow> (rel_key a b = rel_key c d) = (a = c \<and> b = d)"
  using append_Cons_eq_iff [of "CHR ''-''" a b c d] by (simp add: rel_key_def no_hyphen_def)

lemma unordered_eq: "(unordered q = unordered p) = (q = p \<or> q = (snd p, fst p))"
  by (cases p; cases q) (auto simp: unordered_def doubleton_eq_iff)

lemma key_in_seen:
  assumes "no_hyphen a" and "no_hyphen b"
  shows "(rel_key a b \<in> (\<lambda>q. rel_key (fst q) (snd q)) ` set seen) = ((a, b) \<in> set seen)"
proof
  assume "rel_key a b \<in> (\<lambda>q. rel_key (fst q) (snd q)) ` set seen"
  then obtain q where q: "q \<in> set seen" "rel_key a b = rel_key (fst q) (snd q)"
    by auto
  with assms have "a = fst q \<and> b = snd q"
    by (simp add: rel_key_inject)
  with q(1) show "(a, b) \<in> set seen" by simp
next
  assume "(a, b) \<in> set seen"
  then show "rel_key a b \<in> (\<lambda>q. rel_key (fst q) (snd q)) ` set seen"
    by force
qed

lemma fold_pair_step:
  assumes "\<forall>q\<in>set ps. no_hyphen (fst q) \<and> no_hyphen (snd q)"
  shows "fst (fold pair_step ps (ls, (\<lambda>q. rel_key (fst q) (snd q)) ` set seen))
       = ls @ map (\<lambda>q. implicit_line (fst q) (snd q)) (first_uncovered seen ps)"
  using assms
proof (induction ps arbitrary: ls seen)
  case Nil
  then show ?case by simp
next
  case (Cons p ps)
  let ?K = "(\<lambda>q. rel_key (fst q) (snd q)) ` set seen"
  have hp: "no_hyphen (fst p)" "no_hyphen (snd p)"
    using Cons.prems by simp_all
  have k1: "(rel_key (fst p) (snd p) \<in> ?K) = (p \<in> set seen)"
    using key_in_seen [OF hp, of seen] by simp
  have k2: "(rel_key (snd p) (fst p) \<in> ?K) = ((snd p, fst p) \<in> set seen)"
    using key_in_seen [OF hp(2) hp(1), of seen] by simp
  have c: "list_ex (\<lambda>q. unordered q = unordered p) seen
             = (p \<in> set seen \<or> (snd p, fst p) \<in> set seen)"
    by (auto simp: list_ex_iff unordered_eq)
  have rest: "\<forall>q\<in>set ps. no_hyphen (fst q) \<and> no_hyphen (snd q)"
    using Cons.prems by simp
  show ?case
  proof (cases "list_ex (\<lambda>q. unordered q = unordered p) seen")
    case True
    then have "pair_step p (ls, ?K) = (ls, ?K)"
      using c k1 k2 by (auto simp: pair_step_def)
    with True Cons.IH [OF rest, of ls seen] show ?thesis by simp
  next
    case False
    then have s: "pair_step p (ls, ?K)
        = (ls @ [implicit_line (fst p) (snd p)],
           (\<lambda>q. rel_key (fst q) (snd q)) ` set (p # seen))"
      using c k1 k2 by (auto simp: pair_step_def)
    have "fst (fold pair_step ps (ls @ [implicit_line (fst p) (snd p)],
                       (\<lambda>q. rel_key (fst q) (snd q)) ` set (p # seen)))
       = (ls @ [implicit_line (fst p) (snd p)])
         @ map (\<lambda>q. implicit_line (fst q) (snd q)) (first_uncovered (p # seen) ps)"
      using rest by (rule Cons.IH)
    with False s show ?thesis by simp
  qed
qed

lemma first_uncovered_mem:
  "q \<in> set (first_uncovered seen ps) \<Longrightarrow>
   q \<in> set ps \<and> \<not> list_ex (\<lambda>s. unordered s = unordered q) seen"
proof (induction ps arbitrary: seen)
  case Nil
  then show ?case by simp
next
  case (Cons p ps)
  show ?case
  proof (cases "list_ex (\<lambda>s. unordered s = unordered p) seen")
    case True
    with Cons show ?thesis by simp
  next
    case False
    with Cons.prems have "q = p \<or> q \<in> set (first_uncovered (p # seen) ps)"
      by simp
    then show ?thesis
    proof
      assume "q = p"
      with False show ?thesis by simp
    next
      assume "q \<in> set (first_uncovered (p # seen) ps)"
      from Cons.IH [OF this] show ?thesis by simp
    qed
  qed
qed

lemma first_uncovered_covers:
  "p \<in> set ps \<Longrightarrow> \<not> list_ex (\<lambda>s. unordered s = unordered p) seen \<Longrightarrow>
   \<exists>q\<in>set (first_uncovered seen ps). unordered q = unordered p"
proof (induction ps arbitrary: seen)
  case Nil
  then show ?case by simp
next
  case (Cons a ps)
  show ?case
  proof (cases "list_ex (\<lambda>s. unordered s = unordered a) seen")
    case True
    with Cons.prems have "p \<noteq> a" by auto
    with Cons.prems have "p \<in> set ps" by simp
    from Cons.IH [OF this Cons.prems(2)] True show ?thesis by simp
  next
    case False
    show ?thesis
    proof (cases "unordered a = unordered p")
      case True
      with False show ?thesis by auto
    next
      case ne: False
      then have "p \<noteq> a" by auto
      with Cons.prems have m: "p \<in> set ps" by simp
      have "\<not> list_ex (\<lambda>s. unordered s = unordered p) (a # seen)"
        using ne Cons.prems(2) by simp
      from Cons.IH [OF m this] False show ?thesis by simp
    qed
  qed
qed

lemma first_uncovered_distinct: "distinct (map unordered (first_uncovered seen ps))"
proof (induction ps arbitrary: seen)
  case Nil
  then show ?case by simp
next
  case (Cons p ps)
  show ?case
  proof (cases "list_ex (\<lambda>s. unordered s = unordered p) seen")
    case True
    with Cons show ?thesis by simp
  next
    case False
    have "unordered q \<noteq> unordered p" if "q \<in> set (first_uncovered (p # seen) ps)" for q
      using first_uncovered_mem [OF that] by auto
    then have "unordered p \<notin> unordered ` set (first_uncovered (p # seen) ps)"
      by auto
    with False Cons show ?thesis by simp
  qed
qed

lemma covered_seen:
  "covered S p
     = list_ex (\<lambda>q. unordered q = unordered p)
         (map (\<lambda>r. (sourceTable r, targetTable r)) (relationships S))"
  by (simp add: covered_def list_ex_iff)

lemma explicit_keys_seen:
  "explicit_keys S
     = (\<lambda>q. rel_key (fst q) (snd q))
         ` set (map (\<lambda>r. (sourceTable r, targetTable r)) (relationships S))"
  by (simp add: explicit_keys_def image_image)

lemma hyphen_free_pairs:
  "hyphen_free S \<Longrightarrow> \<forall>q\<in>set (fk_pairs S). no_hyphen (fst q) \<and> no_hyphen (snd q)"
  by (auto simp: hyphen_free_def fk_pairs_def list_all_iff)

lemma implicit_refines:
  assumes "hyphen_free S"
  shows "generateImplicitRelationships S
       = map (\<lambda>q. implicit_line (fst q) (snd q)) (implicit_pairs S)"
proof -
  let ?seen = "map (\<lambda>r. (sourceTable r, targetTable r)) (relationships S)"
  have "fst (fold pair_step (fk_pairs S) ([], (\<lambda>q. rel_key (fst q) (snd q)) ` set ?seen))
      = [] @ map (\<lambda>q. implicit_line (fst q) (snd q)) (first_uncovered ?seen (fk_pairs S))"
    by (rule fold_pair_step [OF hyphen_free_pairs [OF assms]])
  then show ?thesis
    unfolding generateImplicitRelationships_pairs explicit_keys_seen implicit_pairs_def
    by (simp only: append_Nil)
qed


section \<open>The claims\<close>

subsection \<open>C1: determinism of the SQL compiler\<close>

text \<open>
  C1: the compiled text is a function of the schema and of the one clock reading in
  \<^verbatim>\<open>generateHeader\<close>. For every schema there are two texts, which do not depend on the
  clock, such that every compilation returns the first, a line break, the line
  \<^verbatim>\<open>-- Generated: <timestamp>\<close>, a line break and the second. So two compilations of one
  schema are identical outside that line, and for a timestamp without a line break (every
  ISO timestamp) the lines of the output are the lines of the first text, the timestamp
  line, and the lines of the second text.
\<close>

theorem C1_compile_deterministic:
  "\<exists>p s. \<forall>now. compile now S = p @ [nl] @ ''-- Generated: '' @ now @ [nl] @ s
            \<and> (nl_free now \<longrightarrow>
                 lines_of (compile now S) = lines_of p @ [''-- Generated: '' @ now] @ lines_of s)"
proof -
  define p where "p = header_rule @ [nl] @ ''-- Database Schema: '' @ sch_name S @ [nl]
      @ ''-- Dialect: '' @ (if dialect S = PostgreSQL then ''PostgreSQL'' else ''MySQL'')"
  define r where "r = concat (map (\<lambda>y. [nl, nl] @ y)
                               (filter (\<lambda>s. trim s \<noteq> []) (tl (sections [] S))))"
  define s where "s = ''-- Description: '' @ or_else (Some (description S)) ''Auto-generated schema''
      @ [nl] @ header_rule @ r"
  have c: "compile now S = generateHeader now S @ r" for now
    unfolding r_def compile_split [of now S] tl_sections [of now S "[]"] by (rule refl)
  have e: "compile now S = p @ nl # (''-- Generated: '' @ now) @ nl # s" for now
    unfolding c by (simp add: p_def s_def generateHeader_def Let_def)
  have l: "lines_of (compile now S) = lines_of p @ [''-- Generated: '' @ now] @ lines_of s"
    if "nl_free now" for now
    unfolding e using that by (simp only: lines_of_append_nl) (simp add: lines_of_nl_free)
  from e l show ?thesis
    by (intro exI [of _ p] exI [of _ s]) simp
qed

text \<open>C1 at the example schema, compiled at two instants.\<close>

theorem C1_compile_deterministic_witness:
  "\<exists>p s. compile ''2026-01-01T00:00:00.000Z'' ex_schema
            = p @ [nl] @ ''-- Generated: 2026-01-01T00:00:00.000Z'' @ [nl] @ s
         \<and> compile ''2027-06-30T12:30:00.000Z'' ex_schema
            = p @ [nl] @ ''-- Generated: 2027-06-30T12:30:00.000Z'' @ [nl] @ s
         \<and> lines_of (compile ''2026-01-01T00:00:00.000Z'' ex_schema)
            = lines_of p @ [''-- Generated: 2026-01-01T00:00:00.000Z''] @ lines_of s
         \<and> lines_of (compile ''2027-06-30T12:30:00.000Z'' ex_schema)
            = lines_of p @ [''-- Generated: 2027-06-30T12:30:00.000Z''] @ lines_of s"
proof -
  have n: "nl_free ''2026-01-01T00:00:00.000Z''" "nl_free ''2027-06-30T12:30:00.000Z''"
    by simp_all
  from C1_compile_deterministic [of ex_schema] obtain p s where
    a: "\<And>now. compile now ex_schema = p @ [nl] @ ''-- Generated: '' @ now @ [nl] @ s"
    and b: "\<And>now. nl_free now \<Longrightarrow>
          lines_of (compile now ex_schema) = lines_of p @ [''-- Generated: '' @ now] @ lines_of s"
    by blast
  show ?thesis
    using a [of "''2026-01-01T00:00:00.000Z''"] a [of "''2027-06-30T12:30:00.000Z''"]
      b [OF n(1)] b [OF n(2)]
    by (intro exI [of _ p] exI [of _ s]) simp
qed

subsection \<open>C2: one CREATE TABLE per table\<close>

text \<open>
  C2, as stated, fails: the section of the junction tables adds one \<^verbatim>\<open>CREATE TABLE\<close> for
  every many-to-many relationship with a junction descriptor. A schema with the single table
  \<^verbatim>\<open>Users_Roles\<close> and a many-to-many relationship whose junction table has that name
  compiles to two statements \<^verbatim>\<open>CREATE TABLE "Users_Roles" (\<close>.
\<close>

theorem C2_junction_counterexample:
  "select_lines is_create_table (compile ''2026-01-01T00:00:00.000Z'' ex_collision)
     = [''CREATE TABLE '' @ dquote @ ''Users_Roles'' @ dquote @ '' ('',
        ''CREATE TABLE '' @ dquote @ ''Users_Roles'' @ dquote @ '' ('']
   \<and> length (tables ex_collision) = 1"
proof -
  have p: "plain_schema ex_collision"
    by (simp add: plain_schema_def ex_collision_def ex_schema_def ex_table_def ex_many_def
        ex_rel_def plain_table_def plain_rel_def opt_all_def)
  have h: "select_lines is_head (compile ''2026-01-01T00:00:00.000Z'' ex_collision)
     = [''CREATE TABLE '' @ dquote @ ''Users_Roles'' @ dquote @ '' ('',
        ''CREATE TABLE '' @ dquote @ ''Users_Roles'' @ dquote @ '' ('']"
    by (subst heads_compile [OF p])
       (simp_all add: ex_collision_def ex_schema_def ex_table_def ex_many_def ex_rel_def
         is_junction_def qualified_name_def quote_def)
  show ?thesis
    unfolding create_is_head h
    by (simp add: is_create_table_def ex_collision_def)
qed

text \<open>
  C2, amended: for a schema whose names, comments and values contain no line break and
  whose procedure bodies contain no line that starts with \<^verbatim>\<open>CREATE TABLE\<close> or
  \<^verbatim>\<open>ALTER TABLE\<close>, in either dialect, the lines of the compiled SQL that start with
  \<^verbatim>\<open>CREATE TABLE\<close> are: one \<^verbatim>\<open>CREATE TABLE <qualified name> (\<close> per table of the schema, in
  the order of \<^verbatim>\<open>S.tables\<close>, followed by one \<^verbatim>\<open>CREATE TABLE <junction name> (\<close> per
  many-to-many relationship with a junction descriptor, in the order of the relationships.
\<close>

theorem C2_create_table_per_table:
  assumes "plain_schema S" and "nl_free now"
  shows "select_lines is_create_table (compile now S)
       = map (\<lambda>t. ''CREATE TABLE '' @ qualified_name (dialect S) t @ '' ('') (tables S)
         @ map (\<lambda>r. ''CREATE TABLE '' @ quote (dialect S) (jt_name (the (junctionTable r))) @ '' ('')
             (filter is_junction (relationships S))"
proof -
  have a: "filter is_create_table
             (concat (map (\<lambda>t. map (\<lambda>fk. ''ALTER TABLE '' @ qualified_name (dialect S) t)
                                (foreignKeys t)) (tables S))) = []"
    by (simp add: filter_empty_conv is_create_table_def)
  show ?thesis
    unfolding create_is_head heads_compile [OF assms]
    by (simp add: a filter_map comp_def is_create_table_def)
qed

text \<open>The amended C2 at a schema with the table \<^verbatim>\<open>members\<close> and a junction table.\<close>

theorem C2_create_table_per_table_witness:
  "plain_schema ex_sql \<and> nl_free ''2026-01-01T00:00:00.000Z''
   \<and> select_lines is_create_table (compile ''2026-01-01T00:00:00.000Z'' ex_sql)
       = [''CREATE TABLE '' @ dquote @ ''members'' @ dquote @ '' ('',
          ''CREATE TABLE '' @ dquote @ ''Users_Roles'' @ dquote @ '' ('']"
proof -
  have p: "plain_schema ex_sql"
    by (simp add: plain_schema_def ex_sql_def ex_schema_def ex_members_def ex_many_def ex_rel_def
        ex_column_def plain_table_def plain_column_def plain_fk_def plain_rel_def opt_all_def)
  have n: "nl_free ''2026-01-01T00:00:00.000Z''"
    by simp
  show ?thesis
    using C2_create_table_per_table [OF p n] p n
    by (simp add: ex_sql_def ex_schema_def ex_members_def ex_many_def ex_rel_def
        is_junction_def qualified_name_def quote_def)
qed

subsection \<open>C3: junction tables\<close>

text \<open>
  C3: for every relationship of the schema that is many-to-many and has a junction
  descriptor, the compiled SQL contains this text: a \<^verbatim>\<open>CREATE TABLE\<close> of the quoted junction
  name with exactly the descriptor's source and target columns, typed \<^verbatim>\<open>INTEGER\<close>
  (PostgreSQL) or \<^verbatim>\<open>INT\<close> (MySQL) and \<^verbatim>\<open>NOT NULL\<close>, a \<^verbatim>\<open>created_at\<close> timestamp column, the
  primary key over the pair (source column, target column), and two foreign keys, to the
  relationship's source table and column and to its target table and column, both with
  \<^verbatim>\<open>ON DELETE CASCADE\<close>.
\<close>

theorem C3_junction_table_statement:
  assumes "r \<in> set (relationships S)" and "cardinality r = ManyToMany"
    and "junctionTable r = Some jt"
  shows "str_includes (compile now S)
     (''CREATE TABLE '' @ quote (dialect S) (jt_name jt) @ '' ('' @ [nl]
      @ ''  '' @ quote (dialect S) (jt_sourceColumn jt)
      @ (if dialect S = PostgreSQL then '' INTEGER'' else '' INT'') @ '' NOT NULL,'' @ [nl]
      @ ''  '' @ quote (dialect S) (jt_targetColumn jt)
      @ (if dialect S = PostgreSQL then '' INTEGER'' else '' INT'') @ '' NOT NULL,'' @ [nl]
      @ ''  created_at TIMESTAMP DEFAULT CURRENT_TIMESTAMP,'' @ [nl]
      @ ''  PRIMARY KEY ('' @ quote (dialect S) (jt_sourceColumn jt) @ '', ''
      @ quote (dialect S) (jt_targetColumn jt) @ ''),'' @ [nl]
      @ ''  FOREIGN KEY ('' @ quote (dialect S) (jt_sourceColumn jt) @ '') REFERENCES ''
      @ quote (dialect S) (sourceTable r) @ '' ('' @ quote (dialect S) (sourceColumn r)
      @ '') ON DELETE CASCADE,'' @ [nl]
      @ ''  FOREIGN KEY ('' @ quote (dialect S) (jt_targetColumn jt) @ '') REFERENCES ''
      @ quote (dialect S) (targetTable r) @ '' ('' @ quote (dialect S) (targetColumn r)
      @ '') ON DELETE CASCADE'' @ [nl]
      @ '')'' @ (if dialect S = MySQL then '' ENGINE=InnoDB DEFAULT CHARSET=utf8mb4'' else [])
      @ '';'')"
    (is "str_includes _ ?block")
proof -
  have j: "is_junction r"
    using assms(2,3) by (simp add: is_junction_def)
  have "junction_statement (dialect S) r
      = (''-- Junction table for '' @ sourceTable r @ '' <-> '' @ targetTable r @ [nl]) @ ?block"
    using assms(3) by (simp add: junction_statement_def Let_def engine_suffix_def)
  then have "sublist ?block (junction_statement (dialect S) r)"
    by (simp only: sublist_append_leftI)
  then have "sublist ?block (compile now S)"
    using junction_statement_in_compile [OF assms(1) j] by (rule sublist_transitive)
  then show ?thesis
    by (simp only: str_includes_def)
qed

text \<open>C3 at the example schema: the junction table \<^verbatim>\<open>Users_Roles\<close> of the many-to-many
  relationship between \<^verbatim>\<open>Users\<close> and \<^verbatim>\<open>Roles\<close>.\<close>

theorem C3_junction_table_statement_witness:
  "ex_many \<in> set (relationships ex_sql) \<and> cardinality ex_many = ManyToMany
   \<and> str_includes (compile ''2026-01-01T00:00:00.000Z'' ex_sql)
     (''CREATE TABLE '' @ dquote @ ''Users_Roles'' @ dquote @ '' ('' @ [nl]
      @ ''  '' @ dquote @ ''users_id'' @ dquote @ '' INTEGER NOT NULL,'' @ [nl]
      @ ''  '' @ dquote @ ''roles_id'' @ dquote @ '' INTEGER NOT NULL,'' @ [nl]
      @ ''  created_at TIMESTAMP DEFAULT CURRENT_TIMESTAMP,'' @ [nl]
      @ ''  PRIMARY KEY ('' @ dquote @ ''users_id'' @ dquote @ '', '' @ dquote @ ''roles_id''
      @ dquote @ ''),'' @ [nl]
      @ ''  FOREIGN KEY ('' @ dquote @ ''users_id'' @ dquote @ '') REFERENCES '' @ dquote
      @ ''Users'' @ dquote @ '' ('' @ dquote @ ''id'' @ dquote @ '') ON DELETE CASCADE,'' @ [nl]
      @ ''  FOREIGN KEY ('' @ dquote @ ''roles_id'' @ dquote @ '') REFERENCES '' @ dquote
      @ ''Roles'' @ dquote @ '' ('' @ dquote @ ''id'' @ dquote @ '') ON DELETE CASCADE'' @ [nl]
      @ '');'')"
proof -
  have m: "ex_many \<in> set (relationships ex_sql)"
    by (simp add: ex_sql_def)
  have c: "cardinality ex_many = ManyToMany"
    by (simp add: ex_many_def)
  have j: "junctionTable ex_many = Some \<lparr>jt_name = ''Users_Roles'', jt_sourceColumn = ''users_id'',
                                    jt_targetColumn = ''roles_id''\<rparr>"
    by (simp add: ex_many_def)
  have d: "dialect ex_sql = PostgreSQL" "sourceTable ex_many = ''Users''"
    "targetTable ex_many = ''Roles''" "sourceColumn ex_many = ''id''" "targetColumn ex_many = ''id''"
    by (simp_all add: ex_sql_def ex_schema_def ex_many_def ex_rel_def)
  show ?thesis
    using C3_junction_table_statement [OF m c j, of "''2026-01-01T00:00:00.000Z''"] m c
    by (simp add: d quote_def)
qed

subsection \<open>C4: primary-key columns\<close>

text \<open>
  C4: the line of a primary-key column consists of the quoted name, the type and, when the
  column has a default that is not \<^verbatim>\<open>null\<close>, the \<^verbatim>\<open>DEFAULT\<close> clause: no \<^verbatim>\<open>NOT NULL\<close> (and no
  \<^verbatim>\<open>UNIQUE\<close>) part is pushed, whatever \<^verbatim>\<open>isNullable\<close> is. The column definitions of a table
  are its column lines in declaration order, followed, exactly when the table has a
  primary-key column, by one \<^verbatim>\<open>PRIMARY KEY (...)\<close> constraint that lists the quoted names of
  all primary-key columns in declaration order. For a table whose names, comments and values
  contain no line break, that constraint is the line before the closing line of the
  \<^verbatim>\<open>CREATE TABLE\<close> statement, and no other line of the table's text starts a
  \<^verbatim>\<open>PRIMARY KEY\<close> constraint.
\<close>

theorem C4_primary_key_columns:
  "(isPrimaryKey c \<longrightarrow>
      column_parts d c t
        = [''  '' @ quote d (col_name c), getColumnType d c t]
          @ (if defaultValue c = None \<or> defaultValue c = Some DVNull then []
             else [''DEFAULT '' @ formatDefaultValue d c])
      \<and> generateColumn d c t
        = ''  '' @ quote d (col_name c) @ '' '' @ getColumnType d c t
          @ (if defaultValue c = None \<or> defaultValue c = Some DVNull then []
             else '' DEFAULT '' @ formatDefaultValue d c)
      \<and> generateColumn d (c\<lparr>isNullable := b\<rparr>) t = generateColumn d c t)
   \<and> columnDefs d t
       = map (\<lambda>c. generateColumn d c t) (columns t)
         @ (if list_ex isPrimaryKey (columns t)
            then [''  PRIMARY KEY (''
                  @ join '', '' (map (\<lambda>c. quote d (col_name c)) (filter isPrimaryKey (columns t)))
                  @ '')'']
            else [])
   \<and> (plain_table t \<and> list_ex isPrimaryKey (columns t) \<longrightarrow>
        (\<exists>before.
           lines_of (generateTable d t)
             = before
               @ [''  PRIMARY KEY (''
                  @ join '', '' (map (\<lambda>c. quote d (col_name c)) (filter isPrimaryKey (columns t)))
                  @ '')'',
                  '')'' @ engine_suffix d @ '';'']
               @ comment_statements d t
           \<and> select_lines is_primary_key (generateTable d t)
             = [''  PRIMARY KEY (''
                @ join '', '' (map (\<lambda>c. quote d (col_name c)) (filter isPrimaryKey (columns t)))
                @ '')'']))
   \<and> (plain_table t \<and> \<not> list_ex isPrimaryKey (columns t) \<longrightarrow>
        select_lines is_primary_key (generateTable d t) = [])"
proof (intro conjI impI)
  assume pk: "isPrimaryKey c"
  then show parts: "column_parts d c t
        = [''  '' @ quote d (col_name c), getColumnType d c t]
          @ (if defaultValue c = None \<or> defaultValue c = Some DVNull then []
             else [''DEFAULT '' @ formatDefaultValue d c])"
    by (simp add: column_parts_def)
  show "generateColumn d c t
        = ''  '' @ quote d (col_name c) @ '' '' @ getColumnType d c t
          @ (if defaultValue c = None \<or> defaultValue c = Some DVNull then []
             else '' DEFAULT '' @ formatDefaultValue d c)"
    unfolding generateColumn_def parts by simp
  from pk show "generateColumn d (c\<lparr>isNullable := b\<rparr>) t = generateColumn d c t"
    by (simp add: generateColumn_def column_parts_def getColumnType_def formatDefaultValue_def Let_def)
next
  have "list_ex isPrimaryKey (columns t) = (filter isPrimaryKey (columns t) \<noteq> [])"
    by (simp add: list_ex_iff filter_empty_conv)
  then show "columnDefs d t
       = map (\<lambda>c. generateColumn d c t) (columns t)
         @ (if list_ex isPrimaryKey (columns t)
            then [''  PRIMARY KEY (''
                  @ join '', '' (map (\<lambda>c. quote d (col_name c)) (filter isPrimaryKey (columns t)))
                  @ '')'']
            else [])"
    by (simp add: columnDefs_def Let_def)
next
  let ?pk = "''  PRIMARY KEY (''
                  @ join '', '' (map (\<lambda>c. quote d (col_name c)) (filter isPrimaryKey (columns t)))
                  @ '')''"
  let ?cols = "map (\<lambda>c. generateColumn d c t) (columns t)"
  let ?before = "table_comment_line t @ [''CREATE TABLE '' @ qualified_name d t @ '' ('']
                 @ map (\<lambda>c. generateColumn d c t @ '','') (columns t)"
  assume "plain_table t \<and> list_ex isPrimaryKey (columns t)"
  then have p: "plain_table t" and ne: "filter isPrimaryKey (columns t) \<noteq> []"
    by (simp_all add: list_ex_iff filter_empty_conv)
  from ne have defs: "columnDefs d t = ?cols @ [?pk]"
    by (simp add: columnDefs_def Let_def)
  have l: "lines_of (generateTable d t)
      = ?before @ [?pk, '')'' @ engine_suffix d @ '';''] @ comment_statements d t"
    unfolding lines_generateTable [OF p] defs comma_lines_snoc by (simp add: comp_def)
  have b: "filter is_primary_key ?before = []"
    by (simp add: pk_table_comment_line pk_column_lines) (simp add: is_primary_key_def)
  have "select_lines is_primary_key (generateTable d t) = [?pk]"
    unfolding select_lines_def l
    using b by (simp add: pk_comment_statements is_primary_key_def)
  with l show "\<exists>before.
           lines_of (generateTable d t)
             = before @ [?pk, '')'' @ engine_suffix d @ '';''] @ comment_statements d t
           \<and> select_lines is_primary_key (generateTable d t) = [?pk]"
    by blast
next
  let ?cols = "map (\<lambda>c. generateColumn d c t) (columns t)"
  assume "plain_table t \<and> \<not> list_ex isPrimaryKey (columns t)"
  then have p: "plain_table t" and e: "filter isPrimaryKey (columns t) = []"
    by (simp_all add: list_ex_iff filter_empty_conv)
  from e have defs: "columnDefs d t = ?cols"
    by (simp add: columnDefs_def Let_def)
  have "\<not> is_primary_key []"
    by (simp add: is_primary_key_def)
  moreover have "\<not> is_primary_key (x @ r)" if "x \<in> set ?cols" for x r
    using that generateColumn_not_pk by auto
  ultimately have "filter is_primary_key (comma_lines ?cols) = []"
    by (rule filter_comma_lines_none)
  then show "select_lines is_primary_key (generateTable d t) = []"
    unfolding select_lines_def lines_generateTable [OF p] defs
    by (simp add: pk_table_comment_line pk_comment_statements) (simp add: is_primary_key_def)
qed

text \<open>C4 at the table \<^verbatim>\<open>members\<close>, whose primary key is the pair (\<^verbatim>\<open>team_id\<close>,
  \<^verbatim>\<open>user_id\<close>): the first is declared not nullable, the second nullable.\<close>

theorem C4_primary_key_columns_witness:
  "generateColumn PostgreSQL (ex_column\<lparr>col_name := ''team_id'', isPrimaryKey := True,
                                        isNullable := False\<rparr>) ex_members
     = ''  '' @ dquote @ ''team_id'' @ dquote @ '' INTEGER''
   \<and> plain_table ex_members \<and> list_ex isPrimaryKey (columns ex_members)
   \<and> select_lines is_primary_key (generateTable PostgreSQL ex_members)
     = [''  PRIMARY KEY ('' @ dquote @ ''team_id'' @ dquote @ '', '' @ dquote @ ''user_id''
        @ dquote @ '')'']"
proof -
  let ?c = "ex_column\<lparr>col_name := ''team_id'', isPrimaryKey := True, isNullable := False\<rparr>"
  have k: "isPrimaryKey ?c"
    by simp
  have p: "plain_table ex_members"
    by (simp add: ex_members_def ex_column_def plain_table_def plain_column_def plain_fk_def
        opt_all_def)
  have e: "list_ex isPrimaryKey (columns ex_members)"
    by (simp add: ex_members_def)
  note inst = C4_primary_key_columns [of ?c PostgreSQL ex_members False]
  from inst k have "generateColumn PostgreSQL ?c ex_members
        = ''  '' @ quote PostgreSQL (col_name ?c) @ '' '' @ getColumnType PostgreSQL ?c ex_members
          @ (if defaultValue ?c = None \<or> defaultValue ?c = Some DVNull then []
             else '' DEFAULT '' @ formatDefaultValue PostgreSQL ?c)"
    by blast
  then have 1: "generateColumn PostgreSQL ?c ex_members
     = ''  '' @ dquote @ ''team_id'' @ dquote @ '' INTEGER''"
    by (simp add: ex_column_def quote_def getColumnType_def)
  from inst p e have "select_lines is_primary_key (generateTable PostgreSQL ex_members)
             = [''  PRIMARY KEY (''
                @ join '', '' (map (\<lambda>c. quote PostgreSQL (col_name c))
                                 (filter isPrimaryKey (columns ex_members)))
                @ '')'']"
    by blast
  then have 2: "select_lines is_primary_key (generateTable PostgreSQL ex_members)
     = [''  PRIMARY KEY ('' @ dquote @ ''team_id'' @ dquote @ '', '' @ dquote @ ''user_id''
        @ dquote @ '')'']"
    by (simp add: ex_members_def ex_column_def quote_def)
  from 1 p e 2 show ?thesis
    by blast
qed

subsection \<open>C5: default values\<close>

text \<open>
  C5, as stated, fails: a column whose \<^verbatim>\<open>defaultValue\<close> is \<^verbatim>\<open>null\<close> gets no
  \<^verbatim>\<open>DEFAULT\<close> clause at all, because \<^verbatim>\<open>generateColumn\<close> guards the clause with
  \<^verbatim>\<open>defaultValue !== undefined && defaultValue !== null\<close>. Here a nullable integer column
  \<^verbatim>\<open>id\<close> with a \<^verbatim>\<open>null\<close> default compiles to its name and type only.
\<close>

theorem C5_null_default_counterexample:
  "generateColumn PostgreSQL (ex_column\<lparr>defaultValue := Some DVNull\<rparr>) ex_table
     = ''  '' @ dquote @ ''id'' @ dquote @ '' INTEGER''
   \<and> \<not> str_includes (generateColumn PostgreSQL (ex_column\<lparr>defaultValue := Some DVNull\<rparr>) ex_table)
         ''DEFAULT''"
  by code_simp

text \<open>
  C5, amended: \<^verbatim>\<open>formatDefaultValue\<close> maps \<^verbatim>\<open>null\<close> to \<^verbatim>\<open>NULL\<close>, a boolean to
  \<^verbatim>\<open>TRUE\<close>/\<^verbatim>\<open>FALSE\<close> under postgresql and \<^verbatim>\<open>1\<close>/\<^verbatim>\<open>0\<close> under mysql, a number to the text
  \<^verbatim>\<open>Number.prototype.toString\<close> gives it (\<^verbatim>\<open>42\<close>, \<^verbatim>\<open>-7\<close>, \<^verbatim>\<open>19.99\<close>; \<^verbatim>\<open>9223372036854776000\<close> for
  \<open>2\<^sup>6\<^sup>3\<close>; \<^verbatim>\<open>1e+21\<close> and \<^verbatim>\<open>1e-7\<close>, as exponent notation starts there; \<^verbatim>\<open>NaN\<close>), a string whose upper-cased text contains \<^verbatim>\<open>CURRENT_TIMESTAMP\<close>, \<^verbatim>\<open>NOW()\<close> or
  \<^verbatim>\<open>UUID\<close> to itself, and any other string to the string between single quotes with every
  single quote doubled (\<^verbatim>\<open>O'Brien\<close> gives \<^verbatim>\<open>'O''Brien'\<close>). \<^verbatim>\<open>generateColumn\<close> appends
  \<^verbatim>\<open>DEFAULT\<close> and the formatted value as the last part of the column line exactly when the
  default is neither \<^verbatim>\<open>undefined\<close> nor \<^verbatim>\<open>null\<close>; a \<^verbatim>\<open>null\<close> default compiles like a
  missing one.
\<close>

theorem C5_default_value_formatting:
  "formatDefaultValue d (c\<lparr>defaultValue := Some DVNull\<rparr>) = ''NULL''
   \<and> formatDefaultValue PostgreSQL (c\<lparr>defaultValue := Some (DVBoolean b)\<rparr>)
       = (if b then ''TRUE'' else ''FALSE'')
   \<and> formatDefaultValue MySQL (c\<lparr>defaultValue := Some (DVBoolean b)\<rparr>)
       = (if b then ''1'' else ''0'')
   \<and> formatDefaultValue d (c\<lparr>defaultValue := Some (DVNumber n)\<rparr>) = number_toString n
   \<and> number_toString (Decimal False 42 0) = ''42''
   \<and> number_toString (Decimal True 7 0) = ''-7''
   \<and> number_toString (Decimal neg 0 e) = ''0''
   \<and> number_toString (Decimal False 1999 (- 2)) = ''19.99''
   \<and> number_toString (Decimal True 5 (- 1)) = ''-0.5''
   \<and> number_toString (Decimal False 1 (- 6)) = ''0.000001''
   \<and> number_toString (Decimal False 1 (- 7)) = ''1e-7''
   \<and> number_toString (Decimal False 9223372036854776 3) = ''9223372036854776000''
   \<and> number_toString (Decimal False 1 20) = ''100000000000000000000''
   \<and> number_toString (Decimal False 1 21) = ''1e+21''
   \<and> number_toString (Decimal False 12345 20) = ''1.2345e+24''
   \<and> number_toString NaN = ''NaN'' \<and> number_toString (Infinity True) = ''-Infinity''
   \<and> generateColumn PostgreSQL
         (ex_column\<lparr>col_name := ''price'', col_type := CT_decimal,
                    defaultValue := Some (DVNumber (Decimal False 1999 (- 2)))\<rparr>) ex_table
       = ''  '' @ dquote @ ''price'' @ dquote @ '' DECIMAL(10, 2) DEFAULT 19.99''
   \<and> formatDefaultValue d (c\<lparr>defaultValue := Some (DVString v)\<rparr>)
       = (if str_includes (toUpperCase v) ''CURRENT_TIMESTAMP''
             \<or> str_includes (toUpperCase v) ''NOW()''
             \<or> str_includes (toUpperCase v) ''UUID''
          then v else squote @ escapeString v @ squote)
   \<and> escapeString (v @ squote @ w) = escapeString v @ squote @ squote @ escapeString w
   \<and> escapeString (filter (\<lambda>x. x \<noteq> CHR 0x27) v) = filter (\<lambda>x. x \<noteq> CHR 0x27) v
   \<and> formatDefaultValue d (c\<lparr>defaultValue := Some (DVString (''O'' @ squote @ ''Brien''))\<rparr>)
       = squote @ ''O'' @ squote @ squote @ ''Brien'' @ squote
   \<and> formatDefaultValue d (c\<lparr>defaultValue := Some (DVString ''CURRENT_TIMESTAMP'')\<rparr>)
       = ''CURRENT_TIMESTAMP''
   \<and> formatDefaultValue d (c\<lparr>defaultValue := Some (DVString ''now()'')\<rparr>) = ''now()''
   \<and> formatDefaultValue d (c\<lparr>defaultValue := Some (DVString ''gen_random_uuid()'')\<rparr>)
       = ''gen_random_uuid()''
   \<and> column_parts d c t
       = column_parts d (c\<lparr>defaultValue := None\<rparr>) t
         @ (if defaultValue c = None \<or> defaultValue c = Some DVNull then []
            else [''DEFAULT '' @ formatDefaultValue d c])
   \<and> generateColumn d (c\<lparr>defaultValue := Some DVNull\<rparr>) t
       = generateColumn d (c\<lparr>defaultValue := None\<rparr>) t"
proof -
  have numbers: "number_toString (Decimal False 42 0) = ''42''"
      "number_toString (Decimal True 7 0) = ''-7''"
      "number_toString (Decimal neg 0 e) = ''0''"
      "number_toString (Decimal False 1999 (- 2)) = ''19.99''"
      "number_toString (Decimal True 5 (- 1)) = ''-0.5''"
      "number_toString (Decimal False 1 (- 6)) = ''0.000001''"
      "number_toString (Decimal False 1 (- 7)) = ''1e-7''"
      "number_toString (Decimal False 9223372036854776 3) = ''9223372036854776000''"
      "number_toString (Decimal False 1 20) = ''100000000000000000000''"
      "number_toString (Decimal False 1 21) = ''1e+21''"
      "number_toString (Decimal False 12345 20) = ''1.2345e+24''"
      "number_toString NaN = ''NaN''" "number_toString (Infinity True) = ''-Infinity''"
    by (simp_all add: number_text)
  have price: "generateColumn PostgreSQL
         (ex_column\<lparr>col_name := ''price'', col_type := CT_decimal,
                    defaultValue := Some (DVNumber (Decimal False 1999 (- 2)))\<rparr>) ex_table
       = ''  '' @ dquote @ ''price'' @ dquote @ '' DECIMAL(10, 2) DEFAULT 19.99''"
    by (simp add: generateColumn_def column_parts_def getColumnType_def formatDefaultValue_def
        ex_column_def quote_def number_text)
  have esc_app: "escapeString (v @ squote @ w) = escapeString v @ squote @ squote @ escapeString w"
    by (simp add: escapeString_def)
  have esc_id: "escapeString (filter (\<lambda>x. x \<noteq> CHR 0x27) v) = filter (\<lambda>x. x \<noteq> CHR 0x27) v"
    by (induction v) (simp_all add: escapeString_def)
  have obrien: "\<not> str_includes (toUpperCase (''O'' @ squote @ ''Brien'')) ''CURRENT_TIMESTAMP''"
      "\<not> str_includes (toUpperCase (''O'' @ squote @ ''Brien'')) ''NOW()''"
      "\<not> str_includes (toUpperCase (''O'' @ squote @ ''Brien'')) ''UUID''"
    by code_simp+
  have markers: "str_includes (toUpperCase ''CURRENT_TIMESTAMP'') ''CURRENT_TIMESTAMP''"
      "str_includes (toUpperCase ''now()'') ''NOW()''"
      "str_includes (toUpperCase ''gen_random_uuid()'') ''UUID''"
    by code_simp+
  have ex1: "formatDefaultValue d (c\<lparr>defaultValue := Some (DVString (''O'' @ squote @ ''Brien''))\<rparr>)
       = squote @ ''O'' @ squote @ squote @ ''Brien'' @ squote"
    using obrien by (simp add: formatDefaultValue_def escapeString_def)
  have ex2: "formatDefaultValue d (c\<lparr>defaultValue := Some (DVString ''CURRENT_TIMESTAMP'')\<rparr>)
       = ''CURRENT_TIMESTAMP''"
      "formatDefaultValue d (c\<lparr>defaultValue := Some (DVString ''now()'')\<rparr>) = ''now()''"
      "formatDefaultValue d (c\<lparr>defaultValue := Some (DVString ''gen_random_uuid()'')\<rparr>)
       = ''gen_random_uuid()''"
    using markers by (simp_all add: formatDefaultValue_def)
  have parts: "column_parts d c t
       = column_parts d (c\<lparr>defaultValue := None\<rparr>) t
         @ (if defaultValue c = None \<or> defaultValue c = Some DVNull then []
            else [''DEFAULT '' @ formatDefaultValue d c])"
    by (simp add: column_parts_def getColumnType_def Let_def)
  have null_col: "generateColumn d (c\<lparr>defaultValue := Some DVNull\<rparr>) t
       = generateColumn d (c\<lparr>defaultValue := None\<rparr>) t"
    by (simp add: generateColumn_def column_parts_def getColumnType_def Let_def)
  have fmt: "formatDefaultValue d (c\<lparr>defaultValue := Some DVNull\<rparr>) = ''NULL''"
      "formatDefaultValue PostgreSQL (c\<lparr>defaultValue := Some (DVBoolean b)\<rparr>)
         = (if b then ''TRUE'' else ''FALSE'')"
      "formatDefaultValue MySQL (c\<lparr>defaultValue := Some (DVBoolean b)\<rparr>)
         = (if b then ''1'' else ''0'')"
      "formatDefaultValue d (c\<lparr>defaultValue := Some (DVNumber n)\<rparr>) = number_toString n"
      "formatDefaultValue d (c\<lparr>defaultValue := Some (DVString v)\<rparr>)
       = (if str_includes (toUpperCase v) ''CURRENT_TIMESTAMP''
             \<or> str_includes (toUpperCase v) ''NOW()''
             \<or> str_includes (toUpperCase v) ''UUID''
          then v else squote @ escapeString v @ squote)"
    by (simp_all add: formatDefaultValue_def)
  show ?thesis
    using numbers price esc_app esc_id ex1 ex2 parts null_col fmt by blast
qed

subsection \<open>C6: tables before foreign keys\<close>

text \<open>
  C6, as stated, fails: \<^verbatim>\<open>compile\<close> emits the junction tables after the foreign key
  constraints. The example schema has the table \<^verbatim>\<open>members\<close> with a foreign key and a
  many-to-many relationship with the junction table \<^verbatim>\<open>Users_Roles\<close>; its
  \<^verbatim>\<open>ALTER TABLE\<close> statement precedes the \<^verbatim>\<open>CREATE TABLE\<close> of the junction table.
\<close>

theorem C6_junction_after_alter_counterexample:
  "select_lines is_head (compile ''2026-01-01T00:00:00.000Z'' ex_sql)
     = [''CREATE TABLE '' @ dquote @ ''members'' @ dquote @ '' ('',
        ''ALTER TABLE '' @ dquote @ ''members'' @ dquote,
        ''CREATE TABLE '' @ dquote @ ''Users_Roles'' @ dquote @ '' ('']
   \<and> is_alter_table (''ALTER TABLE '' @ dquote @ ''members'' @ dquote)
   \<and> is_create_table (''CREATE TABLE '' @ dquote @ ''Users_Roles'' @ dquote @ '' ('')"
proof -
  have p: "plain_schema ex_sql"
    by (simp add: plain_schema_def ex_sql_def ex_schema_def ex_members_def ex_many_def ex_rel_def
        ex_column_def plain_table_def plain_column_def plain_fk_def plain_rel_def opt_all_def)
  have "select_lines is_head (compile ''2026-01-01T00:00:00.000Z'' ex_sql)
     = [''CREATE TABLE '' @ dquote @ ''members'' @ dquote @ '' ('',
        ''ALTER TABLE '' @ dquote @ ''members'' @ dquote,
        ''CREATE TABLE '' @ dquote @ ''Users_Roles'' @ dquote @ '' ('']"
    by (subst heads_compile [OF p])
       (simp_all add: ex_sql_def ex_schema_def ex_members_def ex_many_def ex_rel_def
         is_junction_def qualified_name_def quote_def)
  then show ?thesis
    by (simp add: is_create_table_def is_alter_table_def)
qed

text \<open>
  C6, amended: for a schema whose names, comments and values contain no line break and
  whose procedure bodies contain no line that starts with \<^verbatim>\<open>CREATE TABLE\<close> or
  \<^verbatim>\<open>ALTER TABLE\<close>, the lines of the compiled SQL that start a \<^verbatim>\<open>CREATE TABLE\<close> or an
  \<^verbatim>\<open>ALTER TABLE\<close> statement are, in this order: the \<^verbatim>\<open>CREATE TABLE\<close> of every table of the
  schema, then one \<^verbatim>\<open>ALTER TABLE\<close> per foreign key, then the \<^verbatim>\<open>CREATE TABLE\<close> of every
  junction table. So every table of \<^verbatim>\<open>S.tables\<close> is created before every foreign key
  constraint, and the junction tables are created after all of them.
\<close>

theorem C6_statement_order:
  assumes "plain_schema S" and "nl_free now"
  shows "\<exists>creates alters junctions.
           select_lines is_head (compile now S) = creates @ alters @ junctions
         \<and> creates = map (\<lambda>t. ''CREATE TABLE '' @ qualified_name (dialect S) t @ '' ('') (tables S)
         \<and> alters = concat (map (\<lambda>t. map (\<lambda>fk. ''ALTER TABLE '' @ qualified_name (dialect S) t)
                                        (foreignKeys t)) (tables S))
         \<and> junctions = map (\<lambda>r. ''CREATE TABLE '' @ quote (dialect S) (jt_name (the (junctionTable r)))
                                   @ '' ('') (filter is_junction (relationships S))
         \<and> list_all is_create_table creates \<and> list_all is_alter_table alters
         \<and> list_all is_create_table junctions"
proof -
  have 1: "list_all is_create_table
             (map (\<lambda>t. ''CREATE TABLE '' @ qualified_name (dialect S) t @ '' ('') (tables S))"
    by (simp add: list.pred_map comp_def list.pred_True is_create_table_def)
  have 2: "list_all is_alter_table
             (concat (map (\<lambda>t. map (\<lambda>fk. ''ALTER TABLE '' @ qualified_name (dialect S) t)
                                        (foreignKeys t)) (tables S)))"
    by (simp add: list_all_iff is_alter_table_def)
  have 3: "list_all is_create_table
             (map (\<lambda>r. ''CREATE TABLE '' @ quote (dialect S) (jt_name (the (junctionTable r)))
                                   @ '' ('') (filter is_junction (relationships S)))"
    by (simp add: list.pred_map comp_def list_all_iff is_create_table_def)
  from heads_compile [OF assms] 1 2 3 show ?thesis
    by blast
qed

text \<open>The amended C6 at the schema with the table \<^verbatim>\<open>members\<close>, its foreign key and a
  junction table.\<close>

theorem C6_statement_order_witness:
  "plain_schema ex_sql \<and> nl_free ''2026-01-01T00:00:00.000Z''
   \<and> (\<exists>creates alters junctions.
         select_lines is_head (compile ''2026-01-01T00:00:00.000Z'' ex_sql)
           = creates @ alters @ junctions
         \<and> creates = [''CREATE TABLE '' @ dquote @ ''members'' @ dquote @ '' ('']
         \<and> alters = [''ALTER TABLE '' @ dquote @ ''members'' @ dquote]
         \<and> junctions = [''CREATE TABLE '' @ dquote @ ''Users_Roles'' @ dquote @ '' (''])"
proof -
  have p: "plain_schema ex_sql"
    by (simp add: plain_schema_def ex_sql_def ex_schema_def ex_members_def ex_many_def ex_rel_def
        ex_column_def plain_table_def plain_column_def plain_fk_def plain_rel_def opt_all_def)
  have n: "nl_free ''2026-01-01T00:00:00.000Z''"
    by simp
  from C6_statement_order [OF p n] obtain creates alters junctions where
    h: "select_lines is_head (compile ''2026-01-01T00:00:00.000Z'' ex_sql)
           = creates @ alters @ junctions"
    and c: "creates = map (\<lambda>t. ''CREATE TABLE '' @ qualified_name (dialect ex_sql) t @ '' ('')
                        (tables ex_sql)"
    and a: "alters = concat (map (\<lambda>t. map (\<lambda>fk. ''ALTER TABLE '' @ qualified_name (dialect ex_sql) t)
                                        (foreignKeys t)) (tables ex_sql))"
    and j: "junctions = map (\<lambda>r. ''CREATE TABLE ''
                                   @ quote (dialect ex_sql) (jt_name (the (junctionTable r)))
                                   @ '' ('') (filter is_junction (relationships ex_sql))"
    by blast
  have "creates = [''CREATE TABLE '' @ dquote @ ''members'' @ dquote @ '' ('']"
    unfolding c by (simp add: ex_sql_def ex_schema_def ex_members_def qualified_name_def quote_def)
  moreover have "alters = [''ALTER TABLE '' @ dquote @ ''members'' @ dquote]"
    unfolding a by (simp add: ex_sql_def ex_schema_def ex_members_def qualified_name_def quote_def)
  moreover have "junctions = [''CREATE TABLE '' @ dquote @ ''Users_Roles'' @ dquote @ '' ('']"
    unfolding j
    by (simp add: ex_sql_def ex_schema_def ex_many_def ex_rel_def is_junction_def quote_def)
  ultimately show ?thesis
    using h p n by blast
qed

subsection \<open>C7: implicit relationships of the diagram\<close>

text \<open>
  C7, as stated, fails: the pair of a foreign key is tracked as an unordered pair, so of two
  tables that reference each other only the first foreign key gets a line. Table \<^verbatim>\<open>a\<close>
  references \<^verbatim>\<open>b\<close> and \<^verbatim>\<open>b\<close> references \<^verbatim>\<open>a\<close>, without explicit relationships: the
  diagram has the line from \<^verbatim>\<open>b\<close> to \<^verbatim>\<open>a\<close> labelled \<^verbatim>\<open>has_a\<close>, and no line from \<^verbatim>\<open>a\<close>
  to \<^verbatim>\<open>b\<close> labelled \<^verbatim>\<open>has_b\<close> for the foreign key of \<^verbatim>\<open>b\<close>.
\<close>

theorem C7_mutual_foreign_keys_counterexample:
  "relationships ex_mutual = []
   \<and> fk_pairs ex_mutual = [(''a'', ''b''), (''b'', ''a'')]
   \<and> generateImplicitRelationships ex_mutual
     = [''    b ||--o{ a : '' @ dquote @ ''has_a'' @ dquote]
   \<and> (''    a ||--o{ b : '' @ dquote @ ''has_b'' @ dquote) \<notin> set (mermaid_lines ex_mutual)"
proof -
  have r: "relationships ex_mutual = []"
    by (simp add: ex_mutual_def)
  have f: "fk_pairs ex_mutual = [(''a'', ''b''), (''b'', ''a'')]"
    by (simp add: fk_pairs_def ex_mutual_def ex_table_def ex_fk_def)
  have s: "sanitizeName ''a'' = ''a''" "sanitizeName ''b'' = ''b''" "sanitizeName ''Users'' = ''Users''"
    by code_simp+
  have g: "generateImplicitRelationships ex_mutual
     = [''    b ||--o{ a : '' @ dquote @ ''has_a'' @ dquote]"
    by (simp add: generateImplicitRelationships_def explicit_keys_def ex_mutual_def ex_schema_def
        ex_table_def ex_fk_def implicit_step_def rel_key_def implicit_line_def s Let_def)
  have "mermaid_lines ex_mutual
     = [''erDiagram'', ''    a {'', ''    }'', ''    b {'', ''    }'',
        ''    b ||--o{ a : '' @ dquote @ ''has_a'' @ dquote]"
    unfolding mermaid_lines_def g
    by (simp add: ex_mutual_def ex_schema_def ex_table_def generateTableDefinition_def s)
  with r f g show ?thesis
    by simp
qed

text \<open>
  C7, amended: for a schema in which no table name and no foreign-key target contains a
  hyphen, the synthesized lines are, in this order, one line
  \<^verbatim>\<open><referenced> ||--o{ <owner> : "has_<owner>"\<close> (the two names sanitized) for every foreign
  key whose unordered table pair is covered neither by an explicit relationship, in either
  direction, nor by an earlier foreign key. So every foreign key whose pair no explicit
  relationship covers has a synthesized line that connects its two tables, oriented and
  labelled by the first foreign key of that pair; every synthesized line belongs to such a
  foreign key; no two synthesized lines belong to the same unordered pair; and the lines are
  the last lines of the diagram.
\<close>

theorem C7_implicit_relationships:
  assumes "hyphen_free S"
  shows "generateImplicitRelationships S
           = map (\<lambda>p. ''    '' @ sanitizeName (snd p) @ '' ||--o{ '' @ sanitizeName (fst p)
                       @ '' : '' @ dquote @ ''has_'' @ fst p @ dquote) (implicit_pairs S)
         \<and> (\<forall>p\<in>set (fk_pairs S). \<not> covered S p \<longrightarrow>
               (\<exists>q\<in>set (implicit_pairs S). unordered q = unordered p))
         \<and> (\<forall>q\<in>set (implicit_pairs S). q \<in> set (fk_pairs S) \<and> \<not> covered S q)
         \<and> distinct (map unordered (implicit_pairs S))
         \<and> (\<exists>before. mermaid_lines S = before @ generateImplicitRelationships S)
         \<and> compileMermaid S = join [nl] (mermaid_lines S)"
proof (intro conjI ballI impI)
  show "generateImplicitRelationships S
           = map (\<lambda>p. ''    '' @ sanitizeName (snd p) @ '' ||--o{ '' @ sanitizeName (fst p)
                       @ '' : '' @ dquote @ ''has_'' @ fst p @ dquote) (implicit_pairs S)"
    unfolding implicit_refines [OF assms] by (simp add: implicit_line_def)
next
  fix p assume "p \<in> set (fk_pairs S)" and "\<not> covered S p"
  then show "\<exists>q\<in>set (implicit_pairs S). unordered q = unordered p"
    unfolding covered_seen implicit_pairs_def by (rule first_uncovered_covers)
next
  fix q assume q: "q \<in> set (implicit_pairs S)"
  then show "q \<in> set (fk_pairs S)"
    unfolding implicit_pairs_def by (simp add: first_uncovered_mem)
  from q show "\<not> covered S q"
    unfolding covered_seen implicit_pairs_def by (simp add: first_uncovered_mem)
next
  show "distinct (map unordered (implicit_pairs S))"
    unfolding implicit_pairs_def by (rule first_uncovered_distinct)
next
  have "mermaid_lines S
      = ([''erDiagram''] @ concat (map generateTableDefinition (tables S))
         @ map generateRelationship (relationships S)) @ generateImplicitRelationships S"
    by (simp add: mermaid_lines_def)
  then show "\<exists>before. mermaid_lines S = before @ generateImplicitRelationships S"
    by blast
next
  show "compileMermaid S = join [nl] (mermaid_lines S)"
    by (simp add: compileMermaid_def)
qed

text \<open>The amended C7 at a schema in which \<^verbatim>\<open>a\<close> and \<^verbatim>\<open>b\<close> reference each other, \<^verbatim>\<open>b\<close>
  references \<^verbatim>\<open>c\<close> twice and \<^verbatim>\<open>d\<close> once, and an explicit relationship connects \<^verbatim>\<open>d\<close> and
  \<^verbatim>\<open>b\<close>: one line for \<^verbatim>\<open>a\<close> and \<^verbatim>\<open>b\<close>, one for \<^verbatim>\<open>b\<close> and \<^verbatim>\<open>c\<close>, none for \<^verbatim>\<open>d\<close>.\<close>

theorem C7_implicit_relationships_witness:
  "hyphen_free ex_diagram
   \<and> fk_pairs ex_diagram
       = [(''a'', ''b''), (''b'', ''a''), (''b'', ''c''), (''b'', ''c''), (''b'', ''d'')]
   \<and> implicit_pairs ex_diagram = [(''a'', ''b''), (''b'', ''c'')]
   \<and> generateImplicitRelationships ex_diagram
       = [''    b ||--o{ a : '' @ dquote @ ''has_a'' @ dquote,
          ''    c ||--o{ b : '' @ dquote @ ''has_b'' @ dquote]"
proof -
  have s: "sanitizeName ''a'' = ''a''" "sanitizeName ''b'' = ''b''" "sanitizeName ''c'' = ''c''"
    by code_simp+
  have h: "hyphen_free ex_diagram"
    by (simp add: hyphen_free_def no_hyphen_def ex_diagram_def ex_schema_def ex_table_def ex_fk_def)
  have f: "fk_pairs ex_diagram
       = [(''a'', ''b''), (''b'', ''a''), (''b'', ''c''), (''b'', ''c''), (''b'', ''d'')]"
    by (simp add: fk_pairs_def ex_diagram_def ex_schema_def ex_table_def ex_fk_def)
  have i: "implicit_pairs ex_diagram = [(''a'', ''b''), (''b'', ''c'')]"
    unfolding implicit_pairs_def f
    by (simp add: ex_diagram_def ex_schema_def ex_rel_def unordered_def doubleton_eq_iff)
  from C7_implicit_relationships [OF h] have "generateImplicitRelationships ex_diagram
           = map (\<lambda>p. ''    '' @ sanitizeName (snd p) @ '' ||--o{ '' @ sanitizeName (fst p)
                       @ '' : '' @ dquote @ ''has_'' @ fst p @ dquote) (implicit_pairs ex_diagram)"
    by blast
  then have "generateImplicitRelationships ex_diagram
       = [''    b ||--o{ a : '' @ dquote @ ''has_a'' @ dquote,
          ''    c ||--o{ b : '' @ dquote @ ''has_b'' @ dquote]"
    unfolding i by (simp add: s)
  with h f i show ?thesis
    by blast
qed

subsection \<open>C8: totality and the empty schema\<close>

text \<open>
  C8: \<^verbatim>\<open>compile\<close> has no failing branch (the model is a total function), but the output of a
  schema without tables, relationships and stored procedures is not the header alone:
  \<^verbatim>\<open>generateTables\<close> returns the heading \<^verbatim>\<open>-- Tables\<close> and a line break even when there is no
  table, this section is not blank, and \<^verbatim>\<open>compile\<close> keeps it. The theorem evaluates
  \<^verbatim>\<open>compile\<close> on the schema that \<^verbatim>\<open>createEmptySchema\<close> builds.
\<close>

theorem C8_compile_empty_schema:
  "compile now (createEmptySchema new_id created updated d)
     = generateHeader now (createEmptySchema new_id created updated d)
       @ [nl, nl] @ ''-- Tables'' @ [nl]
   \<and> compile now (createEmptySchema new_id created updated d)
     \<noteq> generateHeader now (createEmptySchema new_id created updated d)"
proof -
  let ?S = "createEmptySchema new_id created updated d"
  have t: "tables ?S = []" "relationships ?S = []" "storedProcedures ?S = []"
    by (simp_all add: createEmptySchema_def)
  have secs: "sections now ?S = [generateHeader now ?S, generateTables ?S]"
    by (simp add: sections_def t push_if_def generateEnumTypes_def generateIndexes_def
        generateForeignKeys_def generateJunctionTables_def generateStoredProcedures_def)
  have "compile now ?S = generateHeader now ?S @ [nl, nl] @ generateTables ?S"
    by (simp add: compile_def secs header_nonblank tables_nonblank)
  then show ?thesis
    by (simp add: generateTables_def t)
qed

subsection \<open>C9: the junction descriptor in the store\<close>

text \<open>
  C9, as stated, fails: \<^verbatim>\<open>updateRelationship\<close> merges whatever partial relationship it is
  given. On a store whose relationships satisfy the invariant, changing the cardinality of
  \<^verbatim>\<open>r1\<close> to many-to-many through \<^verbatim>\<open>updateRelationship\<close> leaves \<^verbatim>\<open>r1\<close> many-to-many
  without a junction descriptor.
\<close>

theorem C9_updateRelationship_counterexample:
  "store_inv ex_store
   \<and> \<not> store_inv (updateRelationship ''t1'' ''t2'' ''r1'' (only_cardinality ManyToMany) ex_store)"
  by (simp add: store_inv_def updateRelationship_def updateAndRecompile_def Let_def ex_store_def
      ex_schema_def ex_rel_def schema_inv_def junction_inv_def spread_relationship_def or_keep_def
      only_cardinality_def)

text \<open>
  C9, amended: \<^verbatim>\<open>changeCardinality\<close>, \<^verbatim>\<open>deleteRelationship\<close> and \<^verbatim>\<open>deleteTable\<close> preserve
  the invariant "the junction descriptor is present exactly when the cardinality is
  many-to-many". \<^verbatim>\<open>addRelationship\<close> and \<^verbatim>\<open>updateRelationship\<close> store what they are given:
  after them the invariant holds exactly when it holds of the old relationships and of the
  added relationship, respectively of every relationship after the merge. When the store
  holds a relationship with the given id, \<^verbatim>\<open>changeCardinality\<close> sets, in every relationship
  with that id, the cardinality and the descriptor: for many-to-many the descriptor named
  \<^verbatim>\<open><sourceTable>_<targetTable>\<close> with the columns \<^verbatim>\<open><lower-cased table>_id\<close> of the first
  relationship with that id, for any other cardinality none; these relationships then
  satisfy the invariant, and the tables are unchanged. Lower-casing is that of
  \<^verbatim>\<open>String.prototype.toLowerCase\<close>, also on the letters of the Latin-1 supplement: the last
  equation lower-cases \<^verbatim>\<open>Order_Items\<close> followed by \<open>U+00C0\<close>, \<open>U+00D6\<close>, \<open>U+00D7\<close>, \<open>U+00D8\<close>,
  \<open>U+00DE\<close> and \<open>U+00DF\<close>, of which \<open>U+00D7\<close> (the multiplication sign) and \<open>U+00DF\<close> (a small
  letter) are kept.
\<close>

theorem C9_junction_descriptor_invariant:
  "(store_inv state \<longrightarrow>
      store_inv (changeCardinality now now' rid c state)
      \<and> store_inv (deleteRelationship now now' rid state)
      \<and> store_inv (deleteTable now now' tid state))
   \<and> (\<forall>s. schema state = Some s \<longrightarrow>
        store_inv (addRelationship now now' new_id r state) = (schema_inv s \<and> junction_inv r))
   \<and> (\<forall>s. schema state = Some s \<longrightarrow>
        store_inv (updateRelationship now now' rid u state)
          = list_all (\<lambda>r. junction_inv (if rel_id r = rid then spread_relationship r u else r))
              (relationships s))
   \<and> (\<forall>s rel. schema state = Some s \<and> find (\<lambda>r. rel_id r = rid) (relationships s) = Some rel \<longrightarrow>
        (\<exists>s'. schema (changeCardinality now now' rid c state) = Some s'
           \<and> tables s' = tables s
           \<and> relationships s' =
               map (\<lambda>r. if rel_id r = rid
                        then r\<lparr>cardinality := c,
                               junctionTable :=
                                 (if c = ManyToMany
                                  then Some \<lparr>jt_name = sourceTable rel @ ''_'' @ targetTable rel,
                                             jt_sourceColumn = toLowerCase (sourceTable rel) @ ''_id'',
                                             jt_targetColumn = toLowerCase (targetTable rel) @ ''_id''\<rparr>
                                  else None)\<rparr>
                        else r) (relationships s)
           \<and> list_all (\<lambda>r. rel_id r \<noteq> rid \<or> junction_inv r) (relationships s')))
   \<and> toLowerCase (''Order_Items'' @ [CHR 0xC0, CHR 0xD6, CHR 0xD7, CHR 0xD8, CHR 0xDE, CHR 0xDF])
       = ''order_items'' @ [CHR 0xE0, CHR 0xF6, CHR 0xD7, CHR 0xF8, CHR 0xFE, CHR 0xDF]"
proof (intro conjI allI impI)
  assume "store_inv state"
  then show "store_inv (changeCardinality now now' rid c state)"
    by (rule inv_changeCardinality)
next
  assume "store_inv state"
  then show "store_inv (deleteRelationship now now' rid state)"
    by (rule inv_deleteRelationship)
next
  assume "store_inv state"
  then show "store_inv (deleteTable now now' tid state)"
    by (rule inv_deleteTable)
next
  fix s assume "schema state = Some s"
  then show "store_inv (addRelationship now now' new_id r state) = (schema_inv s \<and> junction_inv r)"
    by (rule inv_addRelationship)
next
  fix s assume "schema state = Some s"
  then show "store_inv (updateRelationship now now' rid u state)
          = list_all (\<lambda>r. junction_inv (if rel_id r = rid then spread_relationship r u else r))
              (relationships s)"
    by (rule inv_updateRelationship)
next
  fix s rel
  assume "schema state = Some s \<and> find (\<lambda>r. rel_id r = rid) (relationships s) = Some rel"
  then show "\<exists>s'. schema (changeCardinality now now' rid c state) = Some s'
           \<and> tables s' = tables s
           \<and> relationships s' =
               map (\<lambda>r. if rel_id r = rid
                        then r\<lparr>cardinality := c,
                               junctionTable :=
                                 (if c = ManyToMany
                                  then Some \<lparr>jt_name = sourceTable rel @ ''_'' @ targetTable rel,
                                             jt_sourceColumn = toLowerCase (sourceTable rel) @ ''_id'',
                                             jt_targetColumn = toLowerCase (targetTable rel) @ ''_id''\<rparr>
                                  else None)\<rparr>
                        else r) (relationships s)
           \<and> list_all (\<lambda>r. rel_id r \<noteq> rid \<or> junction_inv r) (relationships s')"
    using changeCardinality_found by blast
next
  show "toLowerCase (''Order_Items'' @ [CHR 0xC0, CHR 0xD6, CHR 0xD7, CHR 0xD8, CHR 0xDE, CHR 0xDF])
       = ''order_items'' @ [CHR 0xE0, CHR 0xF6, CHR 0xD7, CHR 0xF8, CHR 0xFE, CHR 0xDF]"
    by code_simp
qed

text \<open>The amended C9 at the example store: switching the one-to-many relationship \<^verbatim>\<open>r1\<close>
  between \<^verbatim>\<open>Users\<close> and \<^verbatim>\<open>Roles\<close> to many-to-many, and back to one-to-one.\<close>

theorem C9_junction_descriptor_invariant_witness:
  "store_inv ex_store
   \<and> store_inv (changeCardinality ''t1'' ''t2'' ''r1'' ManyToMany ex_store)
   \<and> (\<exists>s'. schema (changeCardinality ''t1'' ''t2'' ''r1'' ManyToMany ex_store) = Some s'
        \<and> relationships s'
            = [ex_rel\<lparr>cardinality := ManyToMany,
                      junctionTable := Some \<lparr>jt_name = ''Users_Roles'',
                        jt_sourceColumn = ''users_id'', jt_targetColumn = ''roles_id''\<rparr>\<rparr>,
               ex_rel\<lparr>rel_id := ''r2'', sourceTable := ''Roles''\<rparr>])"
proof -
  have l: "toLowerCase ''Users'' = ''users''" "toLowerCase ''Roles'' = ''roles''"
    by code_simp+
  have i: "store_inv ex_store"
    by (simp add: store_inv_def ex_store_def ex_schema_def ex_rel_def schema_inv_def junction_inv_def)
  have s: "schema ex_store = Some ex_schema"
    by (simp add: ex_store_def)
  have f: "find (\<lambda>r. rel_id r = ''r1'') (relationships ex_schema) = Some ex_rel"
    by (simp add: ex_schema_def ex_rel_def)
  note inst = C9_junction_descriptor_invariant
    [of ex_store "''t1''" "''t2''" "''r1''" ManyToMany "''t1''" "''n''" ex_rel "only_cardinality ManyToMany"]
  from inst i have 1: "store_inv (changeCardinality ''t1'' ''t2'' ''r1'' ManyToMany ex_store)"
    by blast
  from inst s f obtain s' where
    2: "schema (changeCardinality ''t1'' ''t2'' ''r1'' ManyToMany ex_store) = Some s'"
    and 3: "relationships s' =
               map (\<lambda>r. if rel_id r = ''r1''
                        then r\<lparr>cardinality := ManyToMany,
                               junctionTable :=
                                 (if ManyToMany = ManyToMany
                                  then Some \<lparr>jt_name = sourceTable ex_rel @ ''_'' @ targetTable ex_rel,
                                             jt_sourceColumn = toLowerCase (sourceTable ex_rel) @ ''_id'',
                                             jt_targetColumn = toLowerCase (targetTable ex_rel) @ ''_id''\<rparr>
                                  else None)\<rparr>
                        else r) (relationships ex_schema)"
    by blast
  have "relationships s'
            = [ex_rel\<lparr>cardinality := ManyToMany,
                      junctionTable := Some \<lparr>jt_name = ''Users_Roles'',
                        jt_sourceColumn = ''users_id'', jt_targetColumn = ''roles_id''\<rparr>\<rparr>,
               ex_rel\<lparr>rel_id := ''r2'', sourceTable := ''Roles''\<rparr>]"
    unfolding 3 by (simp add: ex_schema_def ex_rel_def l)
  with i 1 2 show ?thesis by blast
qed

subsection \<open>C10: deleting a table\<close>

text \<open>
  C10: when the store holds a schema with a table of the given id, \<^verbatim>\<open>deleteTable\<close> replaces
  the schema, recompiles both outputs and leaves every other field of the store as it was.
  The new schema has the tables of the old one whose id differs, in their order and
  unchanged; the first table with the id is gone; its relationships are the old ones whose
  source and target differ from that table's name; the stored procedures, name, dialect and
  description are unchanged. When the table ids are distinct and every relationship endpoint
  named a table before, it does so afterwards. Without a schema, or without a table of that
  id, the state is unchanged.
\<close>

theorem C10_deleteTable_frame:
  "(schema state = None \<longrightarrow> deleteTable now now' tableId state = state)
   \<and> (\<forall>s. schema state = Some s \<and> find (\<lambda>t. tbl_id t = tableId) (tables s) = None \<longrightarrow>
         deleteTable now now' tableId state = state)
   \<and> (\<forall>s table. schema state = Some s \<and> find (\<lambda>t. tbl_id t = tableId) (tables s) = Some table \<longrightarrow>
        (\<exists>s'. deleteTable now now' tableId state
                 = state\<lparr>schema := Some s', compiledSQL := compileSQL now' s',
                         compiledMermaid := compileMermaid s'\<rparr>
           \<and> tables s' = filter (\<lambda>t. tbl_id t \<noteq> tableId) (tables s)
           \<and> table \<notin> set (tables s')
           \<and> relationships s'
               = filter (\<lambda>r. sourceTable r \<noteq> tbl_name table \<and> targetTable r \<noteq> tbl_name table)
                   (relationships s)
           \<and> storedProcedures s' = storedProcedures s
           \<and> sch_name s' = sch_name s \<and> dialect s' = dialect s \<and> description s' = description s
           \<and> (distinct (map tbl_id (tables s)) \<and> resolvable s \<longrightarrow> resolvable s')))"
proof (intro conjI allI impI)
  assume "schema state = None"
  then show "deleteTable now now' tableId state = state"
    by (simp add: deleteTable_def)
next
  fix s assume "schema state = Some s \<and> find (\<lambda>t. tbl_id t = tableId) (tables s) = None"
  then show "deleteTable now now' tableId state = state"
    by (simp add: deleteTable_def)
next
  fix s table
  assume "schema state = Some s \<and> find (\<lambda>t. tbl_id t = tableId) (tables s) = Some table"
  then show "\<exists>s'. deleteTable now now' tableId state
                 = state\<lparr>schema := Some s', compiledSQL := compileSQL now' s',
                         compiledMermaid := compileMermaid s'\<rparr>
           \<and> tables s' = filter (\<lambda>t. tbl_id t \<noteq> tableId) (tables s)
           \<and> table \<notin> set (tables s')
           \<and> relationships s'
               = filter (\<lambda>r. sourceTable r \<noteq> tbl_name table \<and> targetTable r \<noteq> tbl_name table)
                   (relationships s)
           \<and> storedProcedures s' = storedProcedures s
           \<and> sch_name s' = sch_name s \<and> dialect s' = dialect s \<and> description s' = description s
           \<and> (distinct (map tbl_id (tables s)) \<and> resolvable s \<longrightarrow> resolvable s')"
    using deleteTable_found by blast
qed

text \<open>C10 at the example store: deleting an unknown table changes nothing; deleting the
  table \<^verbatim>\<open>Users\<close> (id \<^verbatim>\<open>t1\<close>) keeps the table \<^verbatim>\<open>Roles\<close> and the relationship \<^verbatim>\<open>r2\<close> from
  \<^verbatim>\<open>Roles\<close> to \<^verbatim>\<open>Roles\<close>, and drops \<^verbatim>\<open>r1\<close> from \<^verbatim>\<open>Users\<close> to \<^verbatim>\<open>Roles\<close>.\<close>

theorem C10_deleteTable_frame_witness:
  "deleteTable ''n1'' ''n2'' ''t9'' ex_store = ex_store
   \<and> (\<exists>s'. schema (deleteTable ''n1'' ''n2'' ''t1'' ex_store) = Some s'
        \<and> tables s' = [ex_table\<lparr>tbl_id := ''t2'', tbl_name := ''Roles''\<rparr>]
        \<and> relationships s' = [ex_rel\<lparr>rel_id := ''r2'', sourceTable := ''Roles''\<rparr>]
        \<and> storedProcedures s' = []
        \<and> resolvable s')"
proof -
  have s: "schema ex_store = Some ex_schema"
    by (simp add: ex_store_def)
  have f9: "find (\<lambda>t. tbl_id t = ''t9'') (tables ex_schema) = None"
    by (simp add: ex_schema_def ex_table_def)
  have f1: "find (\<lambda>t. tbl_id t = ''t1'') (tables ex_schema) = Some ex_table"
    by (simp add: ex_schema_def ex_table_def)
  have d: "distinct (map tbl_id (tables ex_schema))"
    by (simp add: ex_schema_def ex_table_def)
  have r: "resolvable ex_schema"
    by (simp add: resolvable_def ex_schema_def ex_table_def ex_rel_def)
  have 1: "deleteTable ''n1'' ''n2'' ''t9'' ex_store = ex_store"
    using C10_deleteTable_frame [of ex_store "''n1''" "''n2''" "''t9''"] s f9 by blast
  from C10_deleteTable_frame [of ex_store "''n1''" "''n2''" "''t1''"] s f1 d r
  obtain s' where e: "deleteTable ''n1'' ''n2'' ''t1'' ex_store
                 = ex_store\<lparr>schema := Some s', compiledSQL := compileSQL ''n2'' s',
                         compiledMermaid := compileMermaid s'\<rparr>"
    and t: "tables s' = filter (\<lambda>t. tbl_id t \<noteq> ''t1'') (tables ex_schema)"
    and rs: "relationships s'
               = filter (\<lambda>r. sourceTable r \<noteq> tbl_name ex_table \<and> targetTable r \<noteq> tbl_name ex_table)
                   (relationships ex_schema)"
    and p: "storedProcedures s' = storedProcedures ex_schema"
    and res: "resolvable s'"
    by blast
  have "schema (deleteTable ''n1'' ''n2'' ''t1'' ex_store) = Some s'"
    unfolding e by simp
  moreover have "tables s' = [ex_table\<lparr>tbl_id := ''t2'', tbl_name := ''Roles''\<rparr>]"
    unfolding t by (simp add: ex_schema_def ex_table_def)
  moreover have "relationships s' = [ex_rel\<lparr>rel_id := ''r2'', sourceTable := ''Roles''\<rparr>]"
    unfolding rs by (simp add: ex_schema_def ex_table_def ex_rel_def)
  moreover have "storedProcedures s' = []"
    unfolding p by (simp add: ex_schema_def)
  ultimately show ?thesis
    using 1 res by blast
qed


end
